theory Spec2Isabelle
  imports Main
begin

section \<open>Characters, strings and Python's built-in string operations\<close>

text \<open>
  Source strings are modelled as \<open>string\<close> (lists of 8-bit characters); the character
  classes of Python's \<open>re\<close> and \<open>str\<close> are restricted to their ASCII members.
\<close>

abbreviation NL :: char where "NL \<equiv> CHR 0x0A"
abbreviation DQ :: char where "DQ \<equiv> CHR 0x22"
abbreviation SQ :: char where "SQ \<equiv> CHR 0x27"
abbreviation BSL :: char where "BSL \<equiv> CHR 0x5C"

definition lower_chars :: string where
  "lower_chars = ''abcdefghijklmnopqrstuvwxyz''"

definition upper_chars :: string where
  "upper_chars = ''ABCDEFGHIJKLMNOPQRSTUVWXYZ''"

definition digit_chars :: string where
  "digit_chars = ''0123456789''"

text \<open>\<open>\w\<close>: letters, digits and the underscore.\<close>

definition word_chars :: string where
  "word_chars = lower_chars @ upper_chars @ digit_chars @ ''_''"

text \<open>\<open>\s\<close> and \<open>str.isspace\<close>: space, tab, LF, CR, VT, FF and the separators 0x1C-0x1F.\<close>

definition space_chars :: string where
  "space_chars = [CHR 0x20, CHR 0x09, CHR 0x0A, CHR 0x0D, CHR 0x0B, CHR 0x0C,
                  CHR 0x1C, CHR 0x1D, CHR 0x1E, CHR 0x1F]"

text \<open>Python's slice \<open>s[i:j]\<close> for \<open>0 \<le> i\<close>.\<close>

definition slice :: "string \<Rightarrow> nat \<Rightarrow> nat \<Rightarrow> string" where
  "slice s i j = take (j - i) (drop i s)"

section \<open>Regular expressions as Python's backtracking matcher runs them\<close>

text \<open>
  The constructs the two \<open>TOKEN_TYPES\<close> tables use. \<open>WordB\<close> is \<open>\b\<close>, \<open>Bol\<close> is
  \<open>^\<close> (without \<open>re.MULTILINE\<close>: the real start of the string only), \<open>NotBehind c\<close>
  is the lookbehind \<open>(?<!c)\<close>, \<open>Dot\<close> is \<open>.\<close> (anything but a newline).
\<close>

datatype regex =
    Eps
  | Chr char
  | Cls string
  | NCls string
  | Dot
  | Seq regex regex
  | Alt regex regex
  | Star regex
  | Plus regex
  | Opt regex
  | WordB
  | Bol
  | NotBehind char

text \<open>
  Greedy repetition: each further iteration is tried before stopping, and only
  iterations that consume input are continued, so at most \<open>n\<close> rounds are needed on
  a rest of \<open>n\<close> characters.
\<close>

fun star_iter :: "(nat \<Rightarrow> nat list) \<Rightarrow> nat \<Rightarrow> nat \<Rightarrow> nat list" where
  "star_iter f 0 p = [p]"
| "star_iter f (Suc n) p =
     concat (map (star_iter f n) (filter (\<lambda>e. p < e) (f p))) @ [p]"

definition is_word_at :: "string \<Rightarrow> nat \<Rightarrow> bool" where
  "is_word_at s i = (i < length s \<and> s ! i \<in> set word_chars)"

definition word_before :: "string \<Rightarrow> nat \<Rightarrow> bool" where
  "word_before s p = (0 < p \<and> is_word_at s (p - 1))"

text \<open>
  \<open>rmatch r s p\<close> lists the end offsets of the matches of \<open>r\<close> in \<open>s\<close> that start at
  offset \<open>p\<close>, in the order in which the backtracking matcher finds them: the head of
  the list is the end of the match that \<open>pattern.match(s, p)\<close> returns.
\<close>

primrec rmatch :: "regex \<Rightarrow> string \<Rightarrow> nat \<Rightarrow> nat list" where
  "rmatch Eps s p = [p]"
| "rmatch (Chr c) s p = (if p < length s \<and> s ! p = c then [Suc p] else [])"
| "rmatch (Cls cs) s p = (if p < length s \<and> s ! p \<in> set cs then [Suc p] else [])"
| "rmatch (NCls cs) s p = (if p < length s \<and> s ! p \<notin> set cs then [Suc p] else [])"
| "rmatch Dot s p = (if p < length s \<and> s ! p \<noteq> NL then [Suc p] else [])"
| "rmatch (Seq a b) s p = concat (map (rmatch b s) (rmatch a s p))"
| "rmatch (Alt a b) s p = rmatch a s p @ rmatch b s p"
| "rmatch (Star r) s p = star_iter (rmatch r s) (length s - p) p"
| "rmatch (Plus r) s p =
     concat (map (\<lambda>e. star_iter (rmatch r s) (length s - e) e) (rmatch r s p))"
| "rmatch (Opt r) s p = rmatch r s p @ [p]"
| "rmatch WordB s p = (if word_before s p \<noteq> is_word_at s p then [p] else [])"
| "rmatch Bol s p = (if p = 0 then [p] else [])"
| "rmatch (NotBehind c) s p = (if 0 < p \<and> s ! (p - 1) = c then [] else [p])"

text \<open>\<open>pattern.match(s, p)\<close>: the end of the first match, or no match.\<close>

definition re_match :: "regex \<Rightarrow> string \<Rightarrow> nat \<Rightarrow> nat option" where
  "re_match r s p = (case rmatch r s p of [] \<Rightarrow> None | e # _ \<Rightarrow> Some e)"

fun lit :: "string \<Rightarrow> regex" where
  "lit [] = Eps"
| "lit [c] = Chr c"
| "lit (c # cs) = Seq (Chr c) (lit cs)"

fun alts :: "regex list \<Rightarrow> regex" where
  "alts [] = Eps"
| "alts [r] = r"
| "alts (r # rs) = Alt r (alts rs)"

text \<open>A pattern that can only match by consuming at least one character.\<close>

primrec nullfree :: "regex \<Rightarrow> bool" where
  "nullfree Eps = False"
| "nullfree (Chr c) = True"
| "nullfree (Cls cs) = True"
| "nullfree (NCls cs) = True"
| "nullfree Dot = True"
| "nullfree (Seq a b) = (nullfree a \<or> nullfree b)"
| "nullfree (Alt a b) = (nullfree a \<and> nullfree b)"
| "nullfree (Star r) = False"
| "nullfree (Plus r) = nullfree r"
| "nullfree (Opt r) = False"
| "nullfree WordB = False"
| "nullfree Bol = False"
| "nullfree (NotBehind c) = False"

section \<open>Tokens and the two tokenizers\<close>

datatype tkind =
    T_KEYWORD | T_IDENTIFIER | T_NUMBER | T_INSERTION_OPERATOR | T_RELATIONAL_OPERATOR
  | T_COMPOUND_ASSIGNMENT | T_ARITHMETIC_OPERATOR | T_STRING | T_SEMICOLON | T_COMMA
  | T_LBRACE | T_RBRACE | T_LPAREN | T_RPAREN | T_SPECIAL_CHARACTER | T_APOSTROPHE
  | T_WHITESPACE | T_COMPARISON_OPERATOR | T_ASSIGNMENT_OPERATOR | T_LOGICAL_OPERATOR
  | T_BITWISE_OPERATOR | T_COLON

type_synonym token = "tkind \<times> string"

text \<open>Every exception the modelled code raises; the tokenizers' carries the offset.\<close>

datatype exn =
    LexFailure nat
  | ValueError
  | SyntaxError
  | KeyError
  | IndexError
  | TypeError
  | NotImplementedError
  | OutOfFuel

text \<open>The inner \<open>for name, pattern in self.token_types\<close> loop: first pattern that matches.\<close>

fun first_match :: "(tkind \<times> regex) list \<Rightarrow> string \<Rightarrow> nat \<Rightarrow> (tkind \<times> nat) option" where
  "first_match [] s p = None"
| "first_match ((name, pat) # rest) s p =
     (case re_match pat s p of
        None \<Rightarrow> first_match rest s p
      | Some e \<Rightarrow> Some (name, e))"

subsection \<open>lexercpp.py\<close>

definition cpp_keyword_words :: "string list" where
  "cpp_keyword_words = [''int'', ''float'', ''double'', ''bool'', ''char'', ''string'', ''void'',
     ''if'', ''else'', ''while'', ''for'', ''return'', ''using'', ''namespace'', ''include'']"

definition cpp_TOKEN_TYPES :: "(tkind \<times> regex) list" where
  "cpp_TOKEN_TYPES = [
     (T_KEYWORD, Seq WordB (Seq (alts (map lit cpp_keyword_words)) WordB)),
     (T_IDENTIFIER,
        Seq WordB (Seq (Cls (lower_chars @ upper_chars @ ''_''))
          (Seq (Star (Cls (lower_chars @ upper_chars @ digit_chars @ ''_''))) WordB))),
     (T_NUMBER,
        Seq WordB (Seq (Plus (Cls digit_chars))
          (Seq (Opt (Seq (Chr (CHR ''.'')) (Star (Cls digit_chars)))) WordB))),
     (T_INSERTION_OPERATOR, Alt (lit ''>>'') (lit ''<<'')),
     (T_RELATIONAL_OPERATOR,
        alts [lit ''<='', lit ''>='', lit ''=='', lit ''!='', lit ''<'', lit ''>'']),
     (T_COMPOUND_ASSIGNMENT, alts [lit ''+='', lit ''-='', lit ''*='', lit ''/='']),
     (T_ARITHMETIC_OPERATOR, alts [lit ''++'', lit ''--'', Cls ''+-*/%='']),
     (T_STRING,
        Seq (Chr DQ) (Seq (Star (NCls [DQ, BSL]))
          (Seq (Star (Seq (Chr BSL) (Seq Dot (Star (NCls [DQ, BSL]))))) (Chr DQ)))),
     (T_SEMICOLON, Chr (CHR '';'')),
     (T_COMMA, Chr (CHR '','')),
     (T_LBRACE, Chr (CHR ''{'')),
     (T_RBRACE, Chr (CHR ''}'')),
     (T_LPAREN, Chr (CHR ''('')),
     (T_RPAREN, Chr (CHR '')'')),
     (T_SPECIAL_CHARACTER, Cls ''@_!#$^&?~''),
     (T_APOSTROPHE, Chr SQ),
     (T_WHITESPACE, Plus (Cls space_chars))]"

text \<open>
  \<open>self.keywords = set(re.findall(r'\w+', keyword_pattern))\<close>: every run of word
  characters of the pattern text, so the \<open>b\<close> of its two \<open>\b\<close> is a member as well.
\<close>

definition cpp_keywords :: "string list" where
  "cpp_keywords = ''b'' # cpp_keyword_words"

text \<open>
  \<open>Lexer.tokenize\<close>: the \<open>while position < len(contents)\<close> loop. A run that never
  leaves the loop has no value (\<open>None\<close>); \<open>Some (Inl (LexFailure p))\<close> is the
  \<open>ValueError\<close> raised at offset \<open>p\<close>.
\<close>

partial_function (option) cpp_tokenize_loop ::
  "string \<Rightarrow> nat \<Rightarrow> token list \<Rightarrow> (exn + token list) option" where
  "cpp_tokenize_loop contents position tokens =
     (if position < length contents then
        (case first_match cpp_TOKEN_TYPES contents position of
           None \<Rightarrow> Some (Inl (LexFailure position))
         | Some (name, e) \<Rightarrow>
             cpp_tokenize_loop contents e
               (if name = T_IDENTIFIER \<and> slice contents position e \<in> set cpp_keywords
                  then tokens @ [(T_KEYWORD, slice contents position e)]
                else if name \<noteq> T_WHITESPACE
                  then tokens @ [(name, slice contents position e)]
                else tokens))
      else Some (Inr tokens))"

declare cpp_tokenize_loop.simps [code]

definition cpp_tokenize :: "string \<Rightarrow> (exn + token list) option" where
  "cpp_tokenize contents = cpp_tokenize_loop contents 0 []"

subsection \<open>python_lexer.py\<close>

definition py_string_body :: "char \<Rightarrow> regex" where
  "py_string_body q =
     Seq (Chr q) (Seq (Star (Alt (NCls [q, BSL]) (Seq (Chr BSL) Dot))) (Chr q))"

definition py_TOKEN_TYPES :: "(tkind \<times> regex) list" where
  "py_TOKEN_TYPES = [
     (T_STRING, Seq (NotBehind BSL) (Alt (py_string_body SQ) (py_string_body DQ))),
     (T_KEYWORD,
        Seq WordB (Seq (alts (map lit
          [''print'', ''input'', ''while'', ''for'', ''if'', ''elif'', ''else''])) WordB)),
     (T_IDENTIFIER,
        Seq (Cls (lower_chars @ upper_chars @ ''_''))
          (Star (Cls (lower_chars @ upper_chars @ digit_chars @ ''_'')))),
     (T_COMPARISON_OPERATOR,
        alts [Seq (Cls ''<>'') (Opt (Chr (CHR ''=''))), lit ''=='', lit ''!='', lit ''>='', lit ''<='']),
     (T_ARITHMETIC_OPERATOR, Cls ''+-*/%''),
     (T_ASSIGNMENT_OPERATOR, Chr (CHR ''='')),
     (T_LOGICAL_OPERATOR, Alt (lit ''&&'') (lit ''||'')),
     (T_BITWISE_OPERATOR, alts [Chr (CHR ''&''), Chr (CHR ''|''), Chr (CHR ''~''), Bol]),
     (T_LPAREN, Chr (CHR ''('')),
     (T_RPAREN, Chr (CHR '')'')),
     (T_WHITESPACE, Plus (Cls space_chars)),
     (T_COLON, Chr (CHR '':'')),
     (T_NUMBER, Seq (Plus (Cls digit_chars)) (Opt (Seq (Chr (CHR ''.'')) (Star (Cls digit_chars))))),
     (T_COMMA, Chr (CHR '',''))]"

text \<open>\<open>PythonLexer.tokenize\<close>, with the same reading of the result.\<close>

partial_function (option) py_tokenize_loop ::
  "string \<Rightarrow> nat \<Rightarrow> token list \<Rightarrow> (exn + token list) option" where
  "py_tokenize_loop source position tokens =
     (if position < length source then
        (case first_match py_TOKEN_TYPES source position of
           None \<Rightarrow> Some (Inl (LexFailure position))
         | Some (name, e) \<Rightarrow>
             py_tokenize_loop source e
               (if name \<noteq> T_WHITESPACE
                  then tokens @ [(name, slice source position e)]
                else tokens))
      else Some (Inr tokens))"

declare py_tokenize_loop.simps [code]

definition py_tokenize :: "string \<Rightarrow> (exn + token list) option" where
  "py_tokenize source = py_tokenize_loop source 0 []"

section \<open>The syntax tree of the C++-side parser (parsercpp.py)\<close>

text \<open>
  One constructor per value of the \<open>type\<close> field, holding the node's other fields in
  the order the parser writes them. An optional field (\<open>initializer\<close>, \<open>increment\<close>,
  \<open>false_branch\<close>) that is absent or \<open>None\<close> is \<open>None\<close>. \<open>OTHER t\<close> is a node whose
  \<open>type\<close> is \<open>t\<close> and that has no other field.
\<close>

datatype node =
    PROGRAM "node list"
  | FUNCTION_DEFINITION string string "node list"
  | VARIABLE_DECLARATION string string "node option"
  | ASSIGNMENT string node
  | EXPRESSION_STATEMENT node
  | WHILE_LOOP node node
  | FOR_LOOP node node "node option" node
  | IF_STATEMENT node node "node option"
  | BLOCK "node list"
  | IO_STATEMENT string "node list"
  | RETURN_STATEMENT node
  | FUNCTION_CALL string "node list"
  | EMPTY_STATEMENT
  | BINARY_EXPRESSION string node node
  | NUMBER string
  | IDENTIFIER string
  | STRING_LITERAL string
  | INCREMENT string string
  | BOOLEAN_LITERAL string
  | OTHER string

text \<open>The \<open>type\<close> field.\<close>

primrec node_type :: "node \<Rightarrow> string" where
  "node_type (PROGRAM ss) = ''PROGRAM''"
| "node_type (FUNCTION_DEFINITION rt f body) = ''FUNCTION_DEFINITION''"
| "node_type (VARIABLE_DECLARATION t v i) = ''VARIABLE_DECLARATION''"
| "node_type (ASSIGNMENT v e) = ''ASSIGNMENT''"
| "node_type (EXPRESSION_STATEMENT e) = ''EXPRESSION_STATEMENT''"
| "node_type (WHILE_LOOP c b) = ''WHILE_LOOP''"
| "node_type (FOR_LOOP i c inc b) = ''FOR_LOOP''"
| "node_type (IF_STATEMENT c t f) = ''IF_STATEMENT''"
| "node_type (BLOCK ss) = ''BLOCK''"
| "node_type (IO_STATEMENT io es) = ''IO_STATEMENT''"
| "node_type (RETURN_STATEMENT e) = ''RETURN_STATEMENT''"
| "node_type (FUNCTION_CALL f args) = ''FUNCTION_CALL''"
| "node_type EMPTY_STATEMENT = ''EMPTY_STATEMENT''"
| "node_type (BINARY_EXPRESSION op l r) = ''BINARY_EXPRESSION''"
| "node_type (NUMBER v) = ''NUMBER''"
| "node_type (IDENTIFIER v) = ''IDENTIFIER''"
| "node_type (STRING_LITERAL v) = ''STRING_LITERAL''"
| "node_type (INCREMENT v op) = ''INCREMENT''"
| "node_type (BOOLEAN_LITERAL v) = ''BOOLEAN_LITERAL''"
| "node_type (OTHER t) = t"

section \<open>The C++-side parser\<close>

text \<open>
  The parser object's state is its token list and \<open>position\<close>; the model carries the
  tokens from \<open>position\<close> on, so \<open>current_token()\<close> is the head (or \<open>None\<close> on the empty
  list) and \<open>tokens[position + 1]\<close> the second element. Each function returns the
  node with the tokens left, or the exception raised. The recursive descent is
  bounded by a call depth \<open>n\<close>; \<open>parse_program\<close> supplies a depth that grows with
  the number of tokens.
\<close>

fun bindE :: "exn + 'a \<Rightarrow> ('a \<Rightarrow> exn + 'b) \<Rightarrow> exn + 'b" where
  "bindE (Inl e) f = Inl e"
| "bindE (Inr x) f = f x"

text \<open>\<open>Parser.match\<close>.\<close>

fun match_tok :: "tkind \<Rightarrow> token list \<Rightarrow> exn + (token \<times> token list)" where
  "match_tok k [] = Inl ValueError"
| "match_tok k (t # ts) = (if fst t = k then Inr (t, ts) else Inl ValueError)"

text \<open>\<open>current_token()[0]\<close> and \<open>current_token()[1]\<close>, a \<open>TypeError\<close> on \<open>None\<close>.\<close>

fun cur_kind :: "token list \<Rightarrow> exn + tkind" where
  "cur_kind [] = Inl TypeError"
| "cur_kind (t # ts) = Inr (fst t)"

fun cur_value :: "token list \<Rightarrow> exn + string" where
  "cur_value [] = Inl TypeError"
| "cur_value (t # ts) = Inr (snd t)"

text \<open>\<open>current_token() and current_token()[0] == k and current_token()[1] in vs\<close>.\<close>

fun cur_is :: "token list \<Rightarrow> tkind \<Rightarrow> string list \<Rightarrow> bool" where
  "cur_is [] k vs = False"
| "cur_is (t # ts) k vs = (fst t = k \<and> snd t \<in> set vs)"

fun cur_kind_is :: "token list \<Rightarrow> tkind \<Rightarrow> bool" where
  "cur_kind_is [] k = False"
| "cur_kind_is (t # ts) k = (fst t = k)"

subsection \<open>ExpressionParser\<close>

type_synonym presult = "exn + (node \<times> token list)"

text \<open>
  \<open>parse_term\<close>; \<open>pe\<close> is \<open>parse_expression\<close> for the expression between parentheses.
\<close>

definition parse_term :: "(token list \<Rightarrow> presult) \<Rightarrow> token list \<Rightarrow> presult" where
  "parse_term pe ts =
     (case ts of
        [] \<Rightarrow> Inl TypeError
      | (k, v) # rest \<Rightarrow>
          if k = T_NUMBER then Inr (NUMBER v, rest)
          else if k = T_IDENTIFIER then
            (if cur_is rest T_ARITHMETIC_OPERATOR [''++'', ''--'']
               then bindE (match_tok T_ARITHMETIC_OPERATOR rest)
                      (\<lambda>(operator, rest'). Inr (INCREMENT v (snd operator), rest'))
             else Inr (IDENTIFIER v, rest))
          else if k = T_STRING then Inr (STRING_LITERAL v, rest)
          else if k = T_LPAREN then
            bindE (pe rest) (\<lambda>(expression, rest').
            bindE (match_tok T_RPAREN rest') (\<lambda>(_, rest'').
            Inr (expression, rest'')))
          else Inl SyntaxError)"

text \<open>The \<open>while\<close> loop of \<open>parse_expression\<close>: one operator and one term a round.\<close>

fun parse_expression_loop ::
  "(token list \<Rightarrow> presult) \<Rightarrow> nat \<Rightarrow> node \<Rightarrow> token list \<Rightarrow> presult" where
  "parse_expression_loop pe 0 left ts = Inl OutOfFuel"
| "parse_expression_loop pe (Suc n) left ts =
     (if cur_kind_is ts T_ARITHMETIC_OPERATOR \<or> cur_kind_is ts T_RELATIONAL_OPERATOR then
        bindE (cur_kind ts) (\<lambda>k.
        bindE (match_tok k ts) (\<lambda>(operator, rest).
        bindE (parse_term pe rest) (\<lambda>(right, rest').
        parse_expression_loop pe n (BINARY_EXPRESSION (snd operator) left right) rest')))
      else Inr (left, ts))"

primrec parse_expression :: "nat \<Rightarrow> token list \<Rightarrow> presult" where
  "parse_expression 0 ts = Inl OutOfFuel"
| "parse_expression (Suc n) ts =
     bindE (parse_term (parse_expression n) ts) (\<lambda>(left, rest).
     parse_expression_loop (parse_expression n) n left rest)"

subsection \<open>StatementParser: the statements that hold no statement\<close>

definition type_keywords :: "string list" where
  "type_keywords = [''int'', ''float'', ''double'', ''bool'', ''char'', ''string'', ''void'']"

definition parse_assignment :: "nat \<Rightarrow> token list \<Rightarrow> presult" where
  "parse_assignment n ts =
     bindE (match_tok T_IDENTIFIER ts) (\<lambda>(name, rest).
       if cur_is rest T_ARITHMETIC_OPERATOR [''=''] then
         bindE (match_tok T_ARITHMETIC_OPERATOR rest) (\<lambda>(_, rest1).
         bindE (parse_expression n rest1) (\<lambda>(expression, rest2).
         bindE (match_tok T_SEMICOLON rest2) (\<lambda>(_, rest3).
         Inr (ASSIGNMENT (snd name) expression, rest3))))
       else if cur_kind_is rest T_COMPOUND_ASSIGNMENT then
         bindE (match_tok T_COMPOUND_ASSIGNMENT rest) (\<lambda>(operator, rest1).
         bindE (parse_expression n rest1) (\<lambda>(right_expr, rest2).
         bindE (match_tok T_SEMICOLON rest2) (\<lambda>(_, rest3).
         Inr (ASSIGNMENT (snd name)
                (BINARY_EXPRESSION (take 1 (snd operator)) (IDENTIFIER (snd name)) right_expr),
              rest3))))
       else Inl SyntaxError)"

definition parse_expression_statement :: "nat \<Rightarrow> token list \<Rightarrow> presult" where
  "parse_expression_statement n ts =
     bindE (parse_expression n ts) (\<lambda>(expression, rest).
     bindE (match_tok T_SEMICOLON rest) (\<lambda>(_, rest').
     Inr (EXPRESSION_STATEMENT expression, rest')))"

text \<open>The \<open>while\<close> loop of \<open>parse_io_statement\<close>, one \<open>INSERTION_OPERATOR\<close> a round.\<close>

fun parse_io_loop :: "nat \<Rightarrow> node list \<Rightarrow> token list \<Rightarrow> exn + (node list \<times> token list)" where
  "parse_io_loop 0 expressions ts = Inl OutOfFuel"
| "parse_io_loop (Suc n) expressions ts =
     (if cur_kind_is ts T_INSERTION_OPERATOR then
        bindE (match_tok T_INSERTION_OPERATOR ts) (\<lambda>(_, rest).
        bindE (cur_kind rest) (\<lambda>k.
          if k \<in> {T_STRING, T_IDENTIFIER, T_NUMBER, T_LPAREN} then
            bindE (parse_expression n rest) (\<lambda>(expression, rest').
            parse_io_loop n (expressions @ [expression]) rest')
          else Inl SyntaxError))
      else Inr (expressions, ts))"

definition parse_io_statement :: "nat \<Rightarrow> token list \<Rightarrow> presult" where
  "parse_io_statement n ts =
     bindE (match_tok T_IDENTIFIER ts) (\<lambda>(io_operator, rest).
     bindE (parse_io_loop n [] rest) (\<lambda>(expressions, rest1).
     bindE (match_tok T_SEMICOLON rest1) (\<lambda>(_, rest2).
     Inr (IO_STATEMENT (snd io_operator) expressions, rest2))))"

definition parse_return_statement :: "nat \<Rightarrow> token list \<Rightarrow> presult" where
  "parse_return_statement n ts =
     bindE (match_tok T_KEYWORD ts) (\<lambda>(_, rest).
     bindE (parse_expression n rest) (\<lambda>(expression, rest1).
     bindE (match_tok T_SEMICOLON rest1) (\<lambda>(_, rest2).
     Inr (RETURN_STATEMENT expression, rest2))))"

definition parse_variable_declaration :: "nat \<Rightarrow> token list \<Rightarrow> presult" where
  "parse_variable_declaration n ts =
     bindE (cur_value ts) (\<lambda>v.
       if v \<in> set type_keywords then
         bindE (match_tok T_KEYWORD ts) (\<lambda>(var_type, rest).
         bindE (match_tok T_IDENTIFIER rest) (\<lambda>(var_name, rest1).
           if cur_is rest1 T_ARITHMETIC_OPERATOR [''=''] then
             bindE (match_tok T_ARITHMETIC_OPERATOR rest1) (\<lambda>(_, rest2).
             bindE (parse_expression n rest2) (\<lambda>(initializer, rest3).
             bindE (match_tok T_SEMICOLON rest3) (\<lambda>(_, rest4).
             Inr (VARIABLE_DECLARATION (snd var_type) (snd var_name) (Some initializer), rest4))))
           else
             bindE (match_tok T_SEMICOLON rest1) (\<lambda>(_, rest2).
             Inr (VARIABLE_DECLARATION (snd var_type) (snd var_name) None, rest2))))
       else Inl SyntaxError)"

text \<open>The \<open>while\<close> loop over further arguments of \<open>parse_function_call\<close>.\<close>

fun parse_args_loop :: "nat \<Rightarrow> node list \<Rightarrow> token list \<Rightarrow> exn + (node list \<times> token list)" where
  "parse_args_loop 0 args ts = Inl OutOfFuel"
| "parse_args_loop (Suc n) args ts =
     (if cur_kind_is ts T_COMMA then
        bindE (match_tok T_COMMA ts) (\<lambda>(_, rest).
        bindE (parse_expression n rest) (\<lambda>(arg, rest').
        parse_args_loop n (args @ [arg]) rest'))
      else Inr (args, ts))"

definition parse_function_call :: "nat \<Rightarrow> token list \<Rightarrow> presult" where
  "parse_function_call n ts =
     bindE (match_tok T_IDENTIFIER ts) (\<lambda>(func_name, rest).
     bindE (match_tok T_LPAREN rest) (\<lambda>(_, rest1).
     bindE (cur_kind rest1) (\<lambda>k.
     bindE (if k \<noteq> T_RPAREN
              then bindE (parse_expression n rest1) (\<lambda>(arg, rest2). parse_args_loop n [arg] rest2)
            else Inr ([], rest1)) (\<lambda>(args, rest3).
     bindE (match_tok T_RPAREN rest3) (\<lambda>(_, rest4).
     bindE (match_tok T_SEMICOLON rest4) (\<lambda>(_, rest5).
     Inr (FUNCTION_CALL (snd func_name) args, rest5)))))))"

text \<open>The three header clauses of \<open>parse_for_loop\<close>, up to the closing parenthesis.\<close>

definition parse_for_init :: "nat \<Rightarrow> token list \<Rightarrow> presult" where
  "parse_for_init n ts =
     bindE (cur_kind ts) (\<lambda>k.
       if k = T_KEYWORD then
         bindE (match_tok T_KEYWORD ts) (\<lambda>(init_type, rest).
         bindE (match_tok T_IDENTIFIER rest) (\<lambda>(var_name, rest1).
         bindE (match_tok T_ARITHMETIC_OPERATOR rest1) (\<lambda>(_, rest2).
         bindE (parse_expression n rest2) (\<lambda>(start_value, rest3).
         Inr (VARIABLE_DECLARATION (snd init_type) (snd var_name) (Some start_value), rest3)))))
       else if k = T_IDENTIFIER then
         bindE (match_tok T_IDENTIFIER ts) (\<lambda>(var_name, rest).
         bindE (match_tok T_ARITHMETIC_OPERATOR rest) (\<lambda>(_, rest1).
         bindE (parse_expression n rest1) (\<lambda>(start_value, rest2).
         Inr (ASSIGNMENT (snd var_name) start_value, rest2))))
       else Inl SyntaxError)"

definition parse_for_condition :: "nat \<Rightarrow> token list \<Rightarrow> presult" where
  "parse_for_condition n ts =
     bindE (cur_kind ts) (\<lambda>k.
       if k \<noteq> T_SEMICOLON then parse_expression n ts
       else Inr (BOOLEAN_LITERAL ''true'', ts))"

definition parse_for_increment :: "nat \<Rightarrow> token list \<Rightarrow> exn + (node option \<times> token list)" where
  "parse_for_increment n ts =
     bindE (cur_kind ts) (\<lambda>k.
       if k \<noteq> T_RPAREN \<and> k = T_IDENTIFIER then
         bindE (match_tok T_IDENTIFIER ts) (\<lambda>(inc_var, rest).
         bindE (cur_kind rest) (\<lambda>k1.
         bindE (cur_value rest) (\<lambda>v1.
           if k1 = T_ARITHMETIC_OPERATOR \<and> v1 \<in> {''++'', ''--''} then
             bindE (match_tok T_ARITHMETIC_OPERATOR rest) (\<lambda>(operator, rest1).
             Inr (Some (INCREMENT (snd inc_var) (snd operator)), rest1))
           else if k1 = T_ARITHMETIC_OPERATOR \<and> v1 = ''='' then
             bindE (match_tok T_ARITHMETIC_OPERATOR rest) (\<lambda>(_, rest1).
             bindE (parse_expression n rest1) (\<lambda>(expression, rest2).
             Inr (Some (ASSIGNMENT (snd inc_var) expression), rest2)))
           else if k1 = T_COMPOUND_ASSIGNMENT then
             bindE (match_tok T_COMPOUND_ASSIGNMENT rest) (\<lambda>(operator, rest1).
             bindE (parse_expression n rest1) (\<lambda>(expression, rest2).
             Inr (Some (ASSIGNMENT (snd inc_var)
                    (BINARY_EXPRESSION (take 1 (snd operator)) (IDENTIFIER (snd inc_var)) expression)),
                  rest2)))
           else Inl SyntaxError)))
       else Inr (None, ts))"

subsection \<open>StatementParser: the statements that hold statements\<close>

text \<open>
  Each takes \<open>ps\<close>, which is \<open>parse_statement\<close> for the statements nested in it.
\<close>

text \<open>The \<open>while\<close> loop of \<open>parse_block\<close>.\<close>

fun parse_block_loop ::
  "(token list \<Rightarrow> presult) \<Rightarrow> nat \<Rightarrow> node list \<Rightarrow> token list \<Rightarrow> exn + (node list \<times> token list)" where
  "parse_block_loop ps 0 statements ts = Inl OutOfFuel"
| "parse_block_loop ps (Suc n) statements ts =
     (if ts \<noteq> [] \<and> \<not> cur_kind_is ts T_RBRACE then
        bindE (ps ts) (\<lambda>(statement, rest).
        parse_block_loop ps n (statements @ [statement]) rest)
      else Inr (statements, ts))"

definition parse_block :: "(token list \<Rightarrow> presult) \<Rightarrow> nat \<Rightarrow> token list \<Rightarrow> presult" where
  "parse_block ps n ts =
     bindE (match_tok T_LBRACE ts) (\<lambda>(_, rest).
     bindE (parse_block_loop ps n [] rest) (\<lambda>(statements, rest1).
     bindE (match_tok T_RBRACE rest1) (\<lambda>(_, rest2).
     Inr (BLOCK statements, rest2))))"

definition parse_function_definition :: "(token list \<Rightarrow> presult) \<Rightarrow> nat \<Rightarrow> token list \<Rightarrow> presult" where
  "parse_function_definition ps n ts =
     bindE (match_tok T_KEYWORD ts) (\<lambda>(return_type, rest).
     bindE (match_tok T_IDENTIFIER rest) (\<lambda>(func_name, rest1).
     bindE (match_tok T_LPAREN rest1) (\<lambda>(_, rest2).
     bindE (match_tok T_RPAREN rest2) (\<lambda>(_, rest3).
     bindE (parse_block ps n rest3) (\<lambda>(body, rest4).
       case body of
         BLOCK statements \<Rightarrow>
           Inr (FUNCTION_DEFINITION (snd return_type) (snd func_name) statements, rest4)
       | _ \<Rightarrow> Inl KeyError)))))"

definition parse_while_loop :: "(token list \<Rightarrow> presult) \<Rightarrow> nat \<Rightarrow> token list \<Rightarrow> presult" where
  "parse_while_loop ps n ts =
     bindE (match_tok T_KEYWORD ts) (\<lambda>(_, rest).
     bindE (match_tok T_LPAREN rest) (\<lambda>(_, rest1).
     bindE (parse_expression n rest1) (\<lambda>(condition, rest2).
     bindE (match_tok T_RPAREN rest2) (\<lambda>(_, rest3).
     bindE (ps rest3) (\<lambda>(body, rest4).
     Inr (WHILE_LOOP condition body, rest4))))))"

definition parse_for_loop :: "(token list \<Rightarrow> presult) \<Rightarrow> nat \<Rightarrow> token list \<Rightarrow> presult" where
  "parse_for_loop ps n ts =
     bindE (match_tok T_KEYWORD ts) (\<lambda>(_, rest).
     bindE (match_tok T_LPAREN rest) (\<lambda>(_, rest1).
     bindE (parse_for_init n rest1) (\<lambda>(init, rest2).
     bindE (match_tok T_SEMICOLON rest2) (\<lambda>(_, rest3).
     bindE (parse_for_condition n rest3) (\<lambda>(condition, rest4).
     bindE (match_tok T_SEMICOLON rest4) (\<lambda>(_, rest5).
     bindE (parse_for_increment n rest5) (\<lambda>(increment, rest6).
     bindE (match_tok T_RPAREN rest6) (\<lambda>(_, rest7).
     bindE (ps rest7) (\<lambda>(body, rest8).
     Inr (FOR_LOOP init condition increment body, rest8))))))))))"

fun parse_if_statement :: "(token list \<Rightarrow> presult) \<Rightarrow> nat \<Rightarrow> token list \<Rightarrow> presult" where
  "parse_if_statement ps 0 ts = Inl OutOfFuel"
| "parse_if_statement ps (Suc n) ts =
     bindE (match_tok T_KEYWORD ts) (\<lambda>(_, rest).
     bindE (match_tok T_LPAREN rest) (\<lambda>(_, rest1).
     bindE (parse_expression n rest1) (\<lambda>(condition, rest2).
     bindE (match_tok T_RPAREN rest2) (\<lambda>(_, rest3).
     bindE (ps rest3) (\<lambda>(true_branch, rest4).
       if (case rest4 of [] \<Rightarrow> False | t # _ \<Rightarrow> snd t = ''else'') then
         bindE (match_tok T_KEYWORD rest4) (\<lambda>(_, rest5).
         bindE (if cur_is rest5 T_KEYWORD [''if''] then parse_if_statement ps n rest5
                else ps rest5) (\<lambda>(false_branch, rest6).
         Inr (IF_STATEMENT condition true_branch (Some false_branch), rest6)))
       else Inr (IF_STATEMENT condition true_branch None, rest4))))))"

primrec parse_statement :: "nat \<Rightarrow> token list \<Rightarrow> presult" where
  "parse_statement 0 ts = Inl OutOfFuel"
| "parse_statement (Suc n) ts =
     (case ts of
        [] \<Rightarrow> Inl SyntaxError
      | (token_type, token_value) # rest \<Rightarrow>
          if token_type = T_KEYWORD then
            (if token_value = ''if'' then parse_if_statement (parse_statement n) n ts
             else if token_value = ''while'' then parse_while_loop (parse_statement n) n ts
             else if token_value = ''for'' then parse_for_loop (parse_statement n) n ts
             else if token_value = ''return'' then parse_return_statement n ts
             else if token_value \<in> set type_keywords then
               (if cur_kind_is rest T_IDENTIFIER then
                  (if cur_kind_is (drop 1 rest) T_LPAREN
                     then parse_function_definition (parse_statement n) n ts
                   else parse_variable_declaration n ts)
                else Inl SyntaxError)
             else Inl SyntaxError)
          else if token_type = T_IDENTIFIER then
            (if cur_kind_is rest T_LPAREN then parse_function_call n ts
             else if cur_is rest T_ARITHMETIC_OPERATOR [''++'', ''--'']
               then parse_expression_statement n ts
             else if (cur_kind_is rest T_ARITHMETIC_OPERATOR \<or> cur_kind_is rest T_COMPOUND_ASSIGNMENT)
                     \<and> \<not> cur_is rest (fst (hd rest)) [''++'', ''--'']
               then parse_assignment n ts
             else if token_value \<in> {''cout'', ''cin''} then parse_io_statement n ts
             else parse_expression_statement n ts)
          else if token_type = T_NUMBER then parse_expression_statement n ts
          else if token_type = T_LBRACE then parse_block (parse_statement n) n ts
          else if token_type = T_SEMICOLON then
            bindE (match_tok T_SEMICOLON ts) (\<lambda>(_, rest'). Inr (EMPTY_STATEMENT, rest'))
          else Inl SyntaxError)"

subsection \<open>Parser\<close>

definition is_function_definition :: "token list \<Rightarrow> bool" where
  "is_function_definition ts =
     (cur_is ts T_KEYWORD [''int'', ''float'', ''void'']
      \<and> cur_kind_is (drop 1 ts) T_IDENTIFIER
      \<and> cur_kind_is (drop 2 ts) T_LPAREN)"

fun parse_program_loop :: "nat \<Rightarrow> node list \<Rightarrow> token list \<Rightarrow> exn + node" where
  "parse_program_loop 0 statements ts = Inl OutOfFuel"
| "parse_program_loop (Suc n) statements ts =
     (if ts \<noteq> [] then
        bindE (if is_function_definition ts
                 then parse_function_definition (parse_statement n) n ts
               else parse_statement n ts) (\<lambda>(statement, rest).
        parse_program_loop n (statements @ [statement]) rest)
      else Inr (PROGRAM statements))"

text \<open>
  Between two tokens consumed the descent makes fewer than eight nested calls, so
  eight levels for each token and eight more are enough.
\<close>

definition parse_program :: "token list \<Rightarrow> exn + node" where
  "parse_program tokens = parse_program_loop (8 * length tokens + 8) [] tokens"

section \<open>The C++-side semantic analyzer (semantic_analyzer_cpp.py)\<close>

text \<open>
  What a scope binds a name to: a variable's declared type, or the record
  \<open>{'type': 'function', 'params': {}, 'return_type': rt}\<close> that \<open>analyze_function\<close>
  stores under the function's name (the parser writes no \<open>params\<close>).
\<close>

datatype symval = VarType string | FunctionInfo string

type_synonym scope = "string \<rightharpoonup> symval"

text \<open>\<open>scope_stack\<close>: the global scope first, the innermost scope last.\<close>

type_synonym scope_stack = "scope list"

text \<open>The analyzer's state and the \<open>errors\<close> list it appends to.\<close>

type_synonym astate = "scope_stack \<times> string list"

definition quoted :: "string \<Rightarrow> string" where
  "quoted v = SQ # v @ [SQ]"

text \<open>Python's truth value of a looked-up type: \<open>None\<close> and the empty string are false.\<close>

fun truthy :: "symval option \<Rightarrow> bool" where
  "truthy None = False"
| "truthy (Some (VarType t)) = (t \<noteq> [])"
| "truthy (Some (FunctionInfo rt)) = True"

text \<open>A type as an f-string prints it.\<close>

fun render_type :: "symval option \<Rightarrow> string" where
  "render_type None = ''None''"
| "render_type (Some (VarType t)) = t"
| "render_type (Some (FunctionInfo rt)) =
     ''{'' @ quoted ''type'' @ '': '' @ quoted ''function'' @ '', '' @ quoted ''params'' @ '': {}, ''
       @ quoted ''return_type'' @ '': '' @ quoted rt @ ''}''"

fun lookup_in :: "scope list \<Rightarrow> string \<Rightarrow> symval option" where
  "lookup_in [] var_name = None"
| "lookup_in (scope # rest) var_name =
     (case scope var_name of Some t \<Rightarrow> Some t | None \<Rightarrow> lookup_in rest var_name)"

text \<open>\<open>lookup_variable\<close>: \<open>for scope in reversed(self.scope_stack)\<close>.\<close>

definition lookup_variable :: "scope_stack \<Rightarrow> string \<Rightarrow> symval option" where
  "lookup_variable st var_name = lookup_in (rev st) var_name"

definition enter_scope :: "scope_stack \<Rightarrow> scope_stack" where
  "enter_scope st = st @ [Map.empty]"

definition exit_scope :: "scope_stack \<Rightarrow> exn + scope_stack" where
  "exit_scope st = (if st = [] then Inl IndexError else Inr (butlast st))"

definition declare_variable ::
  "scope_stack \<Rightarrow> string \<Rightarrow> symval \<Rightarrow> string list \<Rightarrow> bool \<Rightarrow> exn + astate" where
  "declare_variable st var_name var_type errors is_member =
     (if st = [] then Inl IndexError
      else if (last st) var_name \<noteq> None then
        Inr (st, errors @ [''Error: Variable '' @ quoted var_name
                            @ '' already declared in this scope.''])
      else if lookup_variable st var_name \<noteq> None \<and> \<not> is_member then
        Inr (st, errors @ [''Warning: Variable '' @ quoted var_name
                            @ '' shadows a declaration in an outer scope.''])
      else Inr (butlast st @ [(last st)(var_name \<mapsto> var_type)], errors))"

definition comparison_operators :: "string list" where
  "comparison_operators = [''>'', ''<'', ''>='', ''<='', ''=='', ''!='']"

text \<open>
  \<open>evaluate_expression_type\<close> returns the type (or \<open>None\<close>) and the extended
  \<open>errors\<close>; it leaves the scopes as they are.
\<close>

definition binary_type ::
  "string \<Rightarrow> symval option \<Rightarrow> symval option \<Rightarrow> string list \<Rightarrow> string
     \<Rightarrow> symval option \<times> string list" where
  "binary_type operator left_type right_type errors ctxt =
     (if operator \<in> set comparison_operators then
        (if truthy left_type \<and> truthy right_type then
           (if left_type = right_type then (Some (VarType ''bool''), errors)
            else (None, errors @ [''Error: Type mismatch in '' @ ctxt @ '' for operator ''
                    @ quoted operator @ ''. Cannot compare '' @ quoted (render_type left_type)
                    @ '' with '' @ quoted (render_type right_type) @ ''.'']))
         else (None, errors))
      else if left_type = Some (VarType ''float'') \<or> right_type = Some (VarType ''float'')
        then (Some (VarType ''float''), errors)
      else if left_type = Some (VarType ''int'') \<and> right_type = Some (VarType ''int'')
        then (Some (VarType ''int''), errors)
      else (None, errors @ [''Error: Invalid types '' @ quoted (render_type left_type) @ '' and ''
              @ quoted (render_type right_type) @ '' for operator '' @ quoted operator
              @ '' in '' @ ctxt @ ''.'']))"

definition unsupported_expression :: "string \<Rightarrow> string list \<Rightarrow> string \<Rightarrow> symval option \<times> string list" where
  "unsupported_expression t errors ctxt =
     (None, errors @ [''Error: Unsupported expression type '' @ quoted t @ '' in '' @ ctxt @ ''.''])"

fun evaluate_expression_type ::
  "scope_stack \<Rightarrow> node \<Rightarrow> string list \<Rightarrow> string \<Rightarrow> exn + (symval option \<times> string list)" where
  "evaluate_expression_type st (NUMBER v) errors ctxt = Inr (Some (VarType ''int''), errors)"
| "evaluate_expression_type st (IDENTIFIER v) errors ctxt =
     (case lookup_variable st v of
        None \<Rightarrow> Inr (None, errors @ [''Error: Variable '' @ quoted v @ '' not declared in ''
                                      @ ctxt @ ''.''])
      | Some t \<Rightarrow> Inr (Some t, errors))"
| "evaluate_expression_type st (BINARY_EXPRESSION operator left right) errors ctxt =
     bindE (evaluate_expression_type st left errors
              (''left operand of '' @ quoted operator @ '' in '' @ ctxt))
       (\<lambda>(left_type, errors1).
     bindE (evaluate_expression_type st right errors1
              (''right operand of '' @ quoted operator @ '' in '' @ ctxt))
       (\<lambda>(right_type, errors2).
     Inr (binary_type operator left_type right_type errors2 ctxt)))"
| "evaluate_expression_type st (STRING_LITERAL v) errors ctxt =
     Inr (Some (VarType ''string''), errors)"
| "evaluate_expression_type st (FUNCTION_CALL func_name args) errors ctxt =
     (case lookup_variable st func_name of
        Some (FunctionInfo rt) \<Rightarrow> Inr (Some (VarType rt), errors)
      | Some (VarType t) \<Rightarrow>
          if t \<noteq> [] then Inl TypeError
          else Inr (None, errors @ [''Error: Function '' @ quoted func_name @ '' not declared in ''
                                      @ ctxt @ ''.''])
      | None \<Rightarrow> Inr (None, errors @ [''Error: Function '' @ quoted func_name @ '' not declared in ''
                                      @ ctxt @ ''.'']))"
| "evaluate_expression_type st (BOOLEAN_LITERAL v) errors ctxt =
     Inr (Some (VarType ''bool''), errors)"
| "evaluate_expression_type st (OTHER t) errors ctxt =
     (if t = ''NUMBER'' then Inr (Some (VarType ''int''), errors)
      else if t = ''STRING_LITERAL'' then Inr (Some (VarType ''string''), errors)
      else if t = ''BOOLEAN_LITERAL'' then Inr (Some (VarType ''bool''), errors)
      else if t \<in> {''IDENTIFIER'', ''BINARY_EXPRESSION'', ''FUNCTION_CALL''} then Inl KeyError
      else Inr (unsupported_expression t errors ctxt))"
| "evaluate_expression_type st expression errors ctxt =
     Inr (unsupported_expression (node_type expression) errors ctxt)"

text \<open>\<open>var_type not in ['int', 'float']\<close>.\<close>

definition numeric_type :: "symval \<Rightarrow> bool" where
  "numeric_type t = (t = VarType ''int'' \<or> t = VarType ''float'')"

definition non_numeric_warning :: "symval \<Rightarrow> string \<Rightarrow> string" where
  "non_numeric_warning var_type var_name =
     ''Warning: Increment operation on non-numeric type '' @ quoted (render_type (Some var_type))
       @ '' for variable '' @ quoted var_name @ ''.''"

definition is_type_compatible :: "symval \<Rightarrow> symval option \<Rightarrow> bool" where
  "is_type_compatible declared_type expr_type =
     (Some declared_type = expr_type
      \<or> (numeric_type declared_type \<and> (\<exists>t \<in> {VarType ''int'', VarType ''float''}. expr_type = Some t))
      \<or> (declared_type = VarType ''string'' \<and> expr_type = Some (VarType ''string'')))"

definition analyze_variable_declaration ::
  "scope_stack \<Rightarrow> string \<Rightarrow> string \<Rightarrow> node option \<Rightarrow> string list \<Rightarrow> exn + astate" where
  "analyze_variable_declaration st var_type var_name initializer errors =
     bindE (if truthy (lookup_variable st var_name)
              then Inr (st, errors @ [''Error: Variable '' @ quoted var_name @ '' already declared.''])
            else declare_variable st var_name (VarType var_type) errors False)
       (\<lambda>(st1, errors1).
          case initializer of
            None \<Rightarrow> Inr (st1, errors1)
          | Some init \<Rightarrow>
              bindE (evaluate_expression_type st1 init errors1
                       (''initializer for '' @ quoted var_name))
                (\<lambda>(init_type, errors2).
                   if truthy init_type \<and> \<not> is_type_compatible (VarType var_type) init_type then
                     Inr (st1, errors2 @ [''Error: Type mismatch in variable declaration: ''
                            @ quoted var_name @ '' declared as '' @ quoted var_type
                            @ '' but initialized with type '' @ quoted (render_type init_type) @ ''.''])
                   else Inr (st1, errors2)))"

definition check_assignment ::
  "scope_stack \<Rightarrow> string \<Rightarrow> node \<Rightarrow> string list \<Rightarrow> exn + astate" where
  "check_assignment st var_name expression errors =
     (case lookup_variable st var_name of
        None \<Rightarrow> Inr (st, errors @ [''Error: Variable '' @ quoted var_name @ '' not declared.''])
      | Some var_type \<Rightarrow>
          bindE (evaluate_expression_type st expression errors
                   (''assignment to '' @ quoted var_name))
            (\<lambda>(expr_type, errors1).
               if truthy expr_type \<and> Some var_type \<noteq> expr_type then
                 Inr (st, errors1 @ [''Error: Type mismatch in assignment to '' @ quoted var_name
                        @ ''. Expected '' @ render_type (Some var_type) @ '', got ''
                        @ render_type expr_type @ ''.''])
               else Inr (st, errors1)))"

definition analyze_increment :: "scope_stack \<Rightarrow> string \<Rightarrow> string list \<Rightarrow> astate" where
  "analyze_increment st var_name errors =
     (case lookup_variable st var_name of
        None \<Rightarrow> (st, errors @ [''Error: Variable '' @ quoted var_name
                                @ '' not declared for increment operation.''])
      | Some var_type \<Rightarrow>
          if \<not> numeric_type var_type then (st, errors @ [non_numeric_warning var_type var_name])
          else (st, errors))"

definition analyze_expression_statement :: "scope_stack \<Rightarrow> node \<Rightarrow> string list \<Rightarrow> exn + astate" where
  "analyze_expression_statement st expression errors =
     (case expression of
        INCREMENT var_name operator \<Rightarrow>
          (case lookup_variable st var_name of
             None \<Rightarrow> Inr (st, errors @ [''Error: Variable '' @ quoted var_name
                                          @ '' not declared for increment.''])
           | Some var_type \<Rightarrow>
               if \<not> numeric_type var_type
                 then Inr (st, errors @ [non_numeric_warning var_type var_name])
               else Inr (st, errors))
      | OTHER t \<Rightarrow>
          if t = ''INCREMENT'' then Inl KeyError
          else bindE (evaluate_expression_type st expression errors ''expression statement'')
                 (\<lambda>(_, errors1). Inr (st, errors1))
      | _ \<Rightarrow>
          bindE (evaluate_expression_type st expression errors ''expression statement'')
            (\<lambda>(_, errors1). Inr (st, errors1)))"

definition analyze_return_statement :: "scope_stack \<Rightarrow> node \<Rightarrow> string list \<Rightarrow> exn + astate" where
  "analyze_return_statement st expression errors =
     bindE (evaluate_expression_type st expression errors ''return statement'')
       (\<lambda>(expression_type, errors1).
          if expression_type = None
            then Inr (st, errors1 @ [''Error: Invalid expression in return statement.''])
          else Inr (st, errors1))"

text \<open>The \<open>for expression in statement.get('expressions', [])\<close> loop.\<close>

fun analyze_io_statement ::
  "scope_stack \<Rightarrow> string \<Rightarrow> node list \<Rightarrow> string list \<Rightarrow> exn + astate" where
  "analyze_io_statement st io_operator [] errors = Inr (st, errors)"
| "analyze_io_statement st io_operator (expression # rest) errors =
     bindE (evaluate_expression_type st expression errors
              (''I/O statement with operator '' @ quoted io_operator))
       (\<lambda>(expr_type, errors1).
          analyze_io_statement st io_operator rest
            (if expr_type = None then errors1 @ [''Error: Invalid expression in I/O statement.'']
             else errors1))"

text \<open>
  What each handler of \<open>analyze_statement\<close> does with a node that has no field but its
  \<open>type\<close>: most report the missing fields, \<open>analyze_increment\<close> reads \<open>var_name\<close>
  unguarded, and a type with no handler is reported as unsupported.
\<close>

definition analyze_fieldless :: "string \<Rightarrow> string list \<Rightarrow> exn + string list" where
  "analyze_fieldless t errors =
     (if t = ''VARIABLE_DECLARATION'' then
        Inr (errors @ [''Variable declaration must have '' @ quoted ''var_name'' @ '' and ''
                        @ quoted ''var_type'' @ '' fields.''])
      else if t = ''ASSIGNMENT'' then
        Inr (errors @ [''Assignment statement must have '' @ quoted ''var_name'' @ '' and ''
                        @ quoted ''expression'' @ '' fields.''])
      else if t = ''FUNCTION_DEFINITION'' then
        Inr (errors @ [''Function definition must include '' @ quoted ''func_name'' @ '' and ''
                        @ quoted ''body'' @ '' fields.''])
      else if t = ''BLOCK'' then
        Inr (errors @ [''Invalid block structure. Expected a dictionary with ''
                        @ quoted ''statements'' @ '' key.''])
      else if t = ''IF_STATEMENT'' then
        Inr (errors @ [''If statement must have '' @ quoted ''condition'' @ '' and ''
                        @ quoted ''true_branch'' @ '' fields.''])
      else if t = ''WHILE_LOOP'' then
        Inr (errors @ [''While loop must have '' @ quoted ''condition'' @ '' and ''
                        @ quoted ''body'' @ '' fields.''])
      else if t = ''RETURN_STATEMENT'' then
        Inr (errors @ [''Return statement must have an '' @ quoted ''expression'' @ '' field.''])
      else if t = ''CLASS_DEFINITION'' then
        Inr (errors @ [''Class definition must have '' @ quoted ''class_name'' @ '' and ''
                        @ quoted ''body'' @ '' fields.''])
      else if t = ''IO_STATEMENT'' then
        Inr (errors @ [''I/O statement must have an '' @ quoted ''io_operator'' @ '' field.''])
      else if t = ''INCREMENT'' then Inl KeyError
      else if t = ''FOR_LOOP'' then
        Inr (errors @ [''For loop must have '' @ quoted ''init'' @ '', '' @ quoted ''condition''
                        @ '', '' @ quoted ''increment'' @ '', and '' @ quoted ''body'' @ '' fields.''])
      else if t = ''EXPRESSION_STATEMENT'' then
        Inr (errors @ [''Expression statement must have an '' @ quoted ''expression'' @ '' field.''])
      else Inr (errors @ [''Warning: Unsupported statement type '' @ quoted t @ ''.'']))"

text \<open>
  \<open>analyze_statement\<close> on the statements that hold no statement: the handlers for
  declarations, assignments, returns, I/O, increments and expression statements, and
  the warning for a type that has no handler.
\<close>

definition analyze_simple :: "scope_stack \<Rightarrow> node \<Rightarrow> string list \<Rightarrow> exn + astate" where
  "analyze_simple st statement errors =
     (case statement of
        VARIABLE_DECLARATION var_type var_name initializer \<Rightarrow>
          analyze_variable_declaration st var_type var_name initializer errors
      | ASSIGNMENT var_name expression \<Rightarrow> check_assignment st var_name expression errors
      | RETURN_STATEMENT expression \<Rightarrow> analyze_return_statement st expression errors
      | IO_STATEMENT io_operator expressions \<Rightarrow>
          analyze_io_statement st io_operator expressions errors
      | INCREMENT var_name operator \<Rightarrow> Inr (analyze_increment st var_name errors)
      | EXPRESSION_STATEMENT expression \<Rightarrow> analyze_expression_statement st expression errors
      | OTHER t \<Rightarrow> bindE (analyze_fieldless t errors) (\<lambda>errors1. Inr (st, errors1))
      | _ \<Rightarrow> Inr (st, errors @ [''Warning: Unsupported statement type ''
                                   @ quoted (node_type statement) @ ''.'']))"

text \<open>\<open>analyze_function\<close> up to the analysis of the body: the entry in the global scope.\<close>

definition function_header ::
  "scope_stack \<Rightarrow> string \<Rightarrow> string \<Rightarrow> string list \<Rightarrow> exn + astate" where
  "function_header st func_name return_type errors =
     (case st of
        [] \<Rightarrow> Inl IndexError
      | global # rest \<Rightarrow>
          if global func_name \<noteq> None
            then Inr (st, errors @ [''Error: Function '' @ quoted func_name @ '' already declared.''])
          else Inr (global(func_name \<mapsto> FunctionInfo return_type) # rest, errors))"

text \<open>The fields a node of each type has, as \<open>'var_name' in node\<close> asks.\<close>

fun var_name_of :: "node \<Rightarrow> string option" where
  "var_name_of (VARIABLE_DECLARATION t v i) = Some v"
| "var_name_of (ASSIGNMENT v e) = Some v"
| "var_name_of (INCREMENT v operator) = Some v"
| "var_name_of n = None"

fun expression_of :: "node \<Rightarrow> node option" where
  "expression_of (ASSIGNMENT v e) = Some e"
| "expression_of (EXPRESSION_STATEMENT e) = Some e"
| "expression_of (RETURN_STATEMENT e) = Some e"
| "expression_of n = None"

definition condition_check ::
  "scope_stack \<Rightarrow> node \<Rightarrow> string list \<Rightarrow> string \<Rightarrow> string \<Rightarrow> exn + string list" where
  "condition_check st condition errors ctxt what =
     bindE (evaluate_expression_type st condition errors ctxt)
       (\<lambda>(condition_type, errors1).
          if condition_type \<noteq> Some (VarType ''bool'') then
            Inr (errors1 @ [''Error: Condition in '' @ what @ '' must be of type '' @ quoted ''bool''
                             @ '', got '' @ render_type condition_type @ ''.''])
          else Inr errors1)"

text \<open>\<open>analyze_for_loop\<close> up to the analysis of the body.\<close>

definition for_header ::
  "scope_stack \<Rightarrow> node \<Rightarrow> node \<Rightarrow> node option \<Rightarrow> string list \<Rightarrow> exn + astate" where
  "for_header st init condition increment errors =
     bindE (if node_type init = ''VARIABLE_DECLARATION'' \<or> node_type init = ''ASSIGNMENT''
              then analyze_simple st init errors
            else Inr (st, errors @ [''Unsupported initialization type '' @ quoted (node_type init)
                                     @ '' in for loop.'']))
       (\<lambda>(st1, errors1).
     bindE (evaluate_expression_type st1 condition errors1 ''for loop condition'')
       (\<lambda>(condition_type, errors2).
     bindE (Inr (if condition_type \<noteq> None \<and> condition_type \<noteq> Some (VarType ''bool'')
                   then errors2 @ [''Error: Condition in for loop should evaluate to ''
                          @ quoted ''bool'' @ '', got '' @ render_type condition_type @ ''.'']
                 else errors2))
       (\<lambda>errors3.
          case increment of
            None \<Rightarrow> Inl TypeError
          | Some inc \<Rightarrow>
              (case var_name_of inc of
                 Some v \<Rightarrow>
                   (case lookup_variable st1 v of
                      None \<Rightarrow> Inr (st1, errors3 @ [''Error: Variable '' @ quoted v
                                                     @ '' for increment not declared.''])
                    | Some var_type \<Rightarrow>
                        if \<not> numeric_type var_type
                          then Inr (st1, errors3 @ [non_numeric_warning var_type v])
                        else Inr (st1, errors3))
               | None \<Rightarrow>
                   (case expression_of inc of
                      Some e \<Rightarrow>
                        bindE (evaluate_expression_type st1 e errors3 ''for loop increment'')
                          (\<lambda>(_, errors4). Inr (st1, errors4))
                    | None \<Rightarrow> Inr (st1, errors3))))))"

text \<open>\<open>analyze_statement\<close>, and the loop over a statement list.\<close>

fun analyze_statement :: "scope_stack \<Rightarrow> node \<Rightarrow> string list \<Rightarrow> exn + astate"
  and analyze_statements :: "scope_stack \<Rightarrow> node list \<Rightarrow> string list \<Rightarrow> exn + astate"
where
  "analyze_statement st (FUNCTION_DEFINITION return_type func_name body) errors =
     bindE (function_header st func_name return_type errors) (\<lambda>(st1, errors1).
     bindE (analyze_statements (enter_scope (enter_scope st1)) body errors1) (\<lambda>(st2, errors2).
     bindE (exit_scope st2) (\<lambda>st3.
     bindE (exit_scope st3) (\<lambda>st4. Inr (st4, errors2)))))"
| "analyze_statement st (BLOCK statements) errors =
     bindE (analyze_statements (enter_scope st) statements errors) (\<lambda>(st1, errors1).
     bindE (exit_scope st1) (\<lambda>st2. Inr (st2, errors1)))"
| "analyze_statement st (IF_STATEMENT condition true_branch false_branch) errors =
     bindE (condition_check st condition errors ''if statement condition'' ''if statement'')
       (\<lambda>errors1.
     bindE (analyze_statement st true_branch errors1) (\<lambda>(st2, errors2).
       case false_branch of
         None \<Rightarrow> Inr (st2, errors2)
       | Some fb \<Rightarrow> analyze_statement st2 fb errors2))"
| "analyze_statement st (WHILE_LOOP condition body) errors =
     bindE (condition_check st condition errors ''while loop condition'' ''while loop'')
       (\<lambda>errors1. analyze_statement st body errors1)"
| "analyze_statement st (FOR_LOOP init condition increment body) errors =
     bindE (for_header st init condition increment errors) (\<lambda>(st1, errors1).
     analyze_statement st1 body errors1)"
| "analyze_statement st statement errors = analyze_simple st statement errors"
| "analyze_statements st [] errors = Inr (st, errors)"
| "analyze_statements st (statement # rest) errors =
     bindE (analyze_statement st statement errors) (\<lambda>(st1, errors1).
     analyze_statements st1 rest errors1)"

text \<open>
  \<open>analyze\<close> on a fresh analyzer (\<open>scope_stack = [{}]\<close>): the error list, with the
  scope stack the analyzer object is left with.
\<close>

definition analyze_run :: "node \<Rightarrow> exn + astate" where
  "analyze_run ast =
     (case ast of
        PROGRAM statements \<Rightarrow> analyze_statements [Map.empty] statements []
      | OTHER t \<Rightarrow>
          if t = ''PROGRAM'' then Inl KeyError
          else Inr ([Map.empty], [''Expected AST root to be of type '' @ quoted ''PROGRAM''])
      | _ \<Rightarrow> Inr ([Map.empty], [''Expected AST root to be of type '' @ quoted ''PROGRAM'']))"

definition analyze :: "node \<Rightarrow> exn + string list" where
  "analyze ast = bindE (analyze_run ast) (\<lambda>(st, errors). Inr errors)"

section \<open>Python's string operations used by the generators\<close>

fun str_join :: "string \<Rightarrow> string list \<Rightarrow> string" where
  "str_join sep [] = []"
| "str_join sep [x] = x"
| "str_join sep (x # y # ys) = x @ sep @ str_join sep (y # ys)"

definition is_space :: "char \<Rightarrow> bool" where
  "is_space c = (c \<in> set space_chars)"

definition lstrip :: "string \<Rightarrow> string" where
  "lstrip s = dropWhile is_space s"

definition rstrip :: "string \<Rightarrow> string" where
  "rstrip s = rev (dropWhile is_space (rev s))"

definition strip :: "string \<Rightarrow> string" where
  "strip s = lstrip (rstrip s)"

text \<open>\<open>s.strip(chars)\<close>.\<close>

definition strip_chars :: "string \<Rightarrow> string \<Rightarrow> string" where
  "strip_chars chars s =
     dropWhile (\<lambda>c. c \<in> set chars) (rev (dropWhile (\<lambda>c. c \<in> set chars) (rev s)))"

definition startswith :: "string \<Rightarrow> string \<Rightarrow> bool" where
  "startswith s p = (take (length p) s = p)"

definition endswith :: "string \<Rightarrow> string \<Rightarrow> bool" where
  "endswith s p = (length p \<le> length s \<and> drop (length s - length p) s = p)"

text \<open>\<open>p in s\<close> for strings.\<close>

fun contains :: "string \<Rightarrow> string \<Rightarrow> bool" where
  "contains [] p = (p = [])"
| "contains (c # cs) p = (startswith (c # cs) p \<or> contains cs p)"

text \<open>
  \<open>s.replace(old, new)\<close> for a non-empty \<open>old\<close>: the occurrences are replaced from
  the left, and the search goes on after each one. \<open>replace_from n\<close> skips the first
  \<open>n\<close> characters, which belong to the occurrence just replaced.
\<close>

fun replace_from :: "nat \<Rightarrow> string \<Rightarrow> string \<Rightarrow> string \<Rightarrow> string" where
  "replace_from n old new [] = []"
| "replace_from (Suc n) old new (c # cs) = replace_from n old new cs"
| "replace_from 0 old new (c # cs) =
     (if old \<noteq> [] \<and> startswith (c # cs) old
        then new @ replace_from (length old - 1) old new cs
      else c # replace_from 0 old new cs)"

definition replace :: "string \<Rightarrow> string \<Rightarrow> string \<Rightarrow> string" where
  "replace s old new = replace_from 0 old new s"

text \<open>\<open>s.replace('\n', '\n    ')\<close>, which every block body goes through.\<close>

definition indent :: "string \<Rightarrow> string" where
  "indent s = replace s [NL] (NL # ''    '')"

subsection \<open>\<open>int(s)\<close> and \<open>str(n)\<close>\<close>

definition digit_value :: "char \<Rightarrow> nat" where
  "digit_value c = of_char c - of_char (CHR ''0'')"

definition is_digit :: "char \<Rightarrow> bool" where
  "is_digit c = (c \<in> set digit_chars)"

text \<open>Digits, with single underscores allowed between them.\<close>

fun digits_ok :: "string \<Rightarrow> bool" where
  "digits_ok [] = False"
| "digits_ok [c] = is_digit c"
| "digits_ok (c # d # cs) =
     (is_digit c \<and> (if d = CHR ''_'' then digits_ok cs else digits_ok (d # cs)))"

definition digits_value :: "string \<Rightarrow> nat" where
  "digits_value s = foldl (\<lambda>acc c. 10 * acc + digit_value c) 0 (filter is_digit s)"

text \<open>
  \<open>int(s)\<close> on a string: surrounding whitespace and one sign are accepted; anything
  else but decimal digits raises \<open>ValueError\<close>.
\<close>

definition py_int :: "string \<Rightarrow> exn + int" where
  "py_int s =
     (let t = strip s in
      case t of
        [] \<Rightarrow> Inl ValueError
      | c # cs \<Rightarrow>
          if c = CHR ''-'' then
            (if digits_ok cs then Inr (- int (digits_value cs)) else Inl ValueError)
          else if c = CHR ''+'' then
            (if digits_ok cs then Inr (int (digits_value cs)) else Inl ValueError)
          else if digits_ok t then Inr (int (digits_value t))
          else Inl ValueError)"

fun nat_digits :: "nat \<Rightarrow> nat \<Rightarrow> string" where
  "nat_digits 0 n = []"
| "nat_digits (Suc fuel) n =
     (if n < 10 then [char_of (n + of_char (CHR ''0''))]
      else nat_digits fuel (n div 10) @ [char_of (n mod 10 + of_char (CHR ''0''))])"

text \<open>\<open>str(n)\<close>; a number \<open>n\<close> has at most \<open>n + 1\<close> digits.\<close>

definition py_str :: "int \<Rightarrow> string" where
  "py_str i = (if i < 0 then CHR ''-'' # nat_digits (nat (- i) + 1) (nat (- i))
               else nat_digits (nat i + 1) (nat i))"

section \<open>The C++-to-Python generator (convertercpp.py)\<close>

text \<open>
  The \<open>Converter\<close> object: its \<open>ast\<close>, its \<open>use_main\<close> flag, and the scope stack of
  \<open>self.semantic_analyzer\<close>, which \<open>generate_code\<close> stores after the analysis.
\<close>

record converter =
  conv_ast :: node
  use_main :: bool
  analyzer_scopes :: scope_stack

type_synonym gres = "exn + string"

subsection \<open>\<open>find_parent\<close>\<close>

text \<open>\<open>search\<close>, with the loop over a statement list of the node \<open>n\<close>.\<close>

fun search :: "node \<Rightarrow> node \<Rightarrow> node option"
  and search_list :: "node \<Rightarrow> node list \<Rightarrow> node \<Rightarrow> node option"
where
  "search (PROGRAM ss) target = search_list (PROGRAM ss) ss target"
| "search (BLOCK ss) target = search_list (BLOCK ss) ss target"
| "search (FUNCTION_DEFINITION rt f body) target =
     search_list (FUNCTION_DEFINITION rt f body) body target"
| "search (WHILE_LOOP c (BLOCK ss)) target = search_list (WHILE_LOOP c (BLOCK ss)) ss target"
| "search (WHILE_LOOP c (PROGRAM ss)) target = search_list (WHILE_LOOP c (PROGRAM ss)) ss target"
| "search (FOR_LOOP i c inc (BLOCK ss)) target =
     search_list (FOR_LOOP i c inc (BLOCK ss)) ss target"
| "search (FOR_LOOP i c inc (PROGRAM ss)) target =
     search_list (FOR_LOOP i c inc (PROGRAM ss)) ss target"
| "search n target = None"
| "search_list n [] target = None"
| "search_list n (stmt # rest) target =
     (if stmt = target then Some n
      else case search stmt target of
             Some result \<Rightarrow> Some result
           | None \<Rightarrow> search_list n rest target)"

definition find_parent :: "converter \<Rightarrow> node \<Rightarrow> node option" where
  "find_parent C n = search (conv_ast C) n"

subsection \<open>The text of each node kind, from the texts of its parts\<close>

definition handled_types :: "string list" where
  "handled_types = [''PROGRAM'', ''FUNCTION_DEFINITION'', ''IO_STATEMENT'',
     ''VARIABLE_DECLARATION'', ''ASSIGNMENT'', ''EXPRESSION_STATEMENT'', ''FOR_LOOP'',
     ''WHILE_LOOP'', ''INCREMENT'', ''BINARY_EXPRESSION'', ''STRING_LITERAL'', ''NUMBER'',
     ''IDENTIFIER'', ''RETURN_STATEMENT'', ''IF_STATEMENT'']"

definition program_text :: "exn + string list \<Rightarrow> gres" where
  "program_text stmts =
     bindE stmts (\<lambda>xs. Inr (str_join [NL] (map lstrip (filter (\<lambda>x. x \<noteq> []) xs))))"

definition function_definition_text :: "converter \<Rightarrow> string \<Rightarrow> exn + string list \<Rightarrow> gres" where
  "function_definition_text C func_name body =
     bindE body (\<lambda>xs.
       let body_str = str_join [NL] (filter (\<lambda>x. strip x \<noteq> []) xs) in
       if func_name = ''main'' \<and> \<not> use_main C then Inr body_str
       else Inr (''def '' @ func_name @ ''():'' @ [NL] @ ''    '' @ indent body_str))"

text \<open>
  One round of the loop over \<open>node["expressions"]\<close>: \<open>e_text\<close>, \<open>left_text\<close> and
  \<open>right_text\<close> are the texts of the expression and, for a binary expression, of its
  operands; \<open>rest\<close> holds the \<open>expressions\<close> and \<open>assignments\<close> of the later rounds.
\<close>

definition io_step ::
  "string \<Rightarrow> node \<Rightarrow> gres \<Rightarrow> gres \<Rightarrow> gres \<Rightarrow> exn + (string list \<times> string list)
     \<Rightarrow> exn + (string list \<times> string list)" where
  "io_step io_operator expr_node e_text left_text right_text rest =
     (let plain = bindE e_text (\<lambda>x. bindE rest (\<lambda>(expressions, assignments).
                    Inr (x # expressions, assignments))) in
      case expr_node of
        BINARY_EXPRESSION operator left right \<Rightarrow>
          if operator = ''='' \<and> io_operator = ''cout'' then
            bindE left_text (\<lambda>var_name.
            bindE right_text (\<lambda>v.
            bindE rest (\<lambda>(expressions, assignments).
            Inr (var_name # expressions, (var_name @ '' = '' @ v) # assignments))))
          else plain
      | OTHER t \<Rightarrow> if t = ''BINARY_EXPRESSION'' then Inl KeyError else plain
      | _ \<Rightarrow> plain)"

text \<open>\<open>lookup_variable_type\<close>: the loop \<open>for i in range(position - 1, -1, -1)\<close>.\<close>

fun lookup_type_from :: "node list \<Rightarrow> string \<Rightarrow> nat \<Rightarrow> exn + symval option" where
  "lookup_type_from statements var_name 0 = Inr None"
| "lookup_type_from statements var_name (Suc i) =
     (if i < length statements then
        (case statements ! i of
           VARIABLE_DECLARATION var_type v initializer \<Rightarrow>
             if v = var_name then Inr (Some (VarType var_type))
             else lookup_type_from statements var_name i
         | _ \<Rightarrow> lookup_type_from statements var_name i)
      else Inl IndexError)"

definition lookup_variable_type :: "string \<Rightarrow> node list option \<Rightarrow> nat \<Rightarrow> exn + symval option" where
  "lookup_variable_type var_name statements position =
     (case statements of
        None \<Rightarrow> Inr None
      | Some ss \<Rightarrow> if ss = [] then Inr None else lookup_type_from ss var_name position)"

text \<open>
  The expression \<open>prev_stmt["expressions"][0]\<close> whose text the \<open>cin\<close> rule generates as
  the prompt, when there is one.
\<close>

definition prev_prompt_expr :: "node list option \<Rightarrow> nat \<Rightarrow> node option" where
  "prev_prompt_expr statements position =
     (case statements of
        None \<Rightarrow> None
      | Some ss \<Rightarrow>
          if 0 < position \<and> position - 1 < length ss then
            (case ss ! (position - 1) of
               IO_STATEMENT io_operator (e # es) \<Rightarrow> if io_operator = ''cout'' then Some e else None
             | _ \<Rightarrow> None)
          else None)"

text \<open>\<open>is_prompt\<close>: the next statement is a \<open>cin\<close> statement.\<close>

definition is_prompt :: "node list option \<Rightarrow> nat \<Rightarrow> exn + bool" where
  "is_prompt statements position =
     (case statements of
        None \<Rightarrow> Inr False
      | Some ss \<Rightarrow>
          if ss \<noteq> [] \<and> position + 1 < length ss then
            (case ss ! (position + 1) of
               IO_STATEMENT io_operator es \<Rightarrow> Inr (io_operator = ''cin'')
             | OTHER t \<Rightarrow> if t = ''IO_STATEMENT'' then Inl KeyError else Inr False
             | _ \<Rightarrow> Inr False)
          else Inr False)"

definition f_string_part :: "string \<Rightarrow> string" where
  "f_string_part expr =
     (if startswith expr [DQ] \<and> endswith expr [DQ]
        then replace (strip_chars [DQ] expr) [BSL, CHR ''n''] []
      else ''{'' @ expr @ ''}'')"

text \<open>
  The \<open>cout\<close> rule. Both branches of \<open>if not has_newline\<close> assign the same text to
  \<open>output\<close>, so \<open>has_newline\<close> does not show in the result.
\<close>

definition cout_text ::
  "string list \<Rightarrow> string list \<Rightarrow> node list option \<Rightarrow> nat \<Rightarrow> gres" where
  "cout_text expressions assignments statements position =
     bindE (is_prompt statements position) (\<lambda>prompt.
       if prompt \<and> length expressions = 1 \<and> startswith (hd expressions) [DQ] then
         Inr (if assignments \<noteq> [] then str_join [NL] assignments else [])
       else
         let output = ''print(f'' @ [DQ] @ concat (map f_string_part expressions) @ [DQ] @ '')'' in
         Inr (if assignments \<noteq> [] then str_join [NL] (assignments @ [output]) else output))"

text \<open>
  The \<open>cin\<close> rule; \<open>prompt_text\<close> is the text of \<open>prev_stmt["expressions"][0]\<close>.
\<close>

definition cin_text ::
  "converter \<Rightarrow> string list \<Rightarrow> node list option \<Rightarrow> nat \<Rightarrow> gres \<Rightarrow> gres" where
  "cin_text C expressions statements position prompt_text =
     (case expressions of
        [] \<Rightarrow> Inl IndexError
      | var_name # _ \<Rightarrow>
          bindE (if truthy (lookup_variable (analyzer_scopes C) var_name)
                   then Inr (lookup_variable (analyzer_scopes C) var_name)
                 else lookup_variable_type var_name statements position) (\<lambda>var_type.
          let no_prompt =
                (if var_type = Some (VarType ''int'') then Inr (var_name @ '' = int(input())'')
                 else Inr (var_name @ '' = input()''));
              with_prompt =
                bindE prompt_text (\<lambda>p.
                  let prompt = strip_chars [DQ] p in
                  if var_type = Some (VarType ''int'')
                    then Inr (var_name @ '' = int(input('' @ [DQ] @ prompt @ [DQ] @ ''))'')
                  else Inr (var_name @ '' = input('' @ [DQ] @ prompt @ [DQ] @ '')''))
          in
          case statements of
            None \<Rightarrow> no_prompt
          | Some ss \<Rightarrow>
              if ss \<noteq> [] \<and> 0 < position then
                (if position - 1 < length ss then
                   (case ss ! (position - 1) of
                      IO_STATEMENT io_operator es \<Rightarrow>
                        if io_operator = ''cout'' then
                          (if es = [] then Inl IndexError else with_prompt)
                        else no_prompt
                    | OTHER t \<Rightarrow> if t = ''IO_STATEMENT'' then Inl KeyError else no_prompt
                    | _ \<Rightarrow> no_prompt)
                 else Inl IndexError)
              else no_prompt))"

definition io_statement_text ::
  "converter \<Rightarrow> string \<Rightarrow> node list \<Rightarrow> exn + (string list \<times> string list)
     \<Rightarrow> node list option \<Rightarrow> nat \<Rightarrow> gres \<Rightarrow> gres" where
  "io_statement_text C io_operator es parts statements position prompt_text =
     (if es = [] then Inr ''print()''
      else
        bindE parts (\<lambda>(expressions, assignments).
          if io_operator = ''cout'' then cout_text expressions assignments statements position
          else if io_operator = ''cin'' then cin_text C expressions statements position prompt_text
          else Inr []))"

definition compound_operators :: "string list" where
  "compound_operators = [''+'', ''-'', ''*'', ''/'', ''%'']"

definition assignment_text :: "string \<Rightarrow> node \<Rightarrow> gres \<Rightarrow> gres \<Rightarrow> gres" where
  "assignment_text var_name expression e_text right_text =
     (let regular = bindE e_text (\<lambda>expr_code. Inr (var_name @ '' = '' @ expr_code)) in
      case expression of
        BINARY_EXPRESSION operator left right \<Rightarrow>
          if operator \<in> set compound_operators then
            (case left of
               IDENTIFIER v \<Rightarrow>
                 if v = var_name
                   then bindE right_text (\<lambda>r. Inr (var_name @ '' '' @ operator @ ''= '' @ r))
                 else regular
             | OTHER t \<Rightarrow> if t = ''IDENTIFIER'' then Inl KeyError else regular
             | _ \<Rightarrow> regular)
          else regular
      | OTHER t \<Rightarrow> if t = ''BINARY_EXPRESSION'' then Inl KeyError else regular
      | _ \<Rightarrow> regular)"

text \<open>
  The \<open>FOR_LOOP\<close> rule up to \<open>range_str\<close>: the three arguments of \<open>range\<close>, from the
  texts of the initial value, of the right operand of the condition and of the
  right operand of an assignment used as increment.
\<close>

definition for_start :: "node \<Rightarrow> gres \<Rightarrow> gres" where
  "for_start init init_text =
     (case init of
        VARIABLE_DECLARATION var_type var_name (Some initializer) \<Rightarrow> init_text
      | ASSIGNMENT var_name expression \<Rightarrow> init_text
      | OTHER t \<Rightarrow> if t = ''ASSIGNMENT'' then Inl KeyError else Inr ''0''
      | _ \<Rightarrow> Inr ''0'')"

definition for_bounds :: "string \<Rightarrow> string \<Rightarrow> string \<Rightarrow> exn + (string \<times> string \<times> string)" where
  "for_bounds operator start stop =
     (if operator = ''<='' then bindE (py_int stop) (\<lambda>n. Inr (start, py_str (n + 1), ''1''))
      else if operator = ''<'' then Inr (start, stop, ''1'')
      else if operator = ''>'' then Inr (stop, start, ''-1'')
      else if operator = ''>='' then bindE (py_int stop) (\<lambda>n. Inr (start, py_str (n - 1), ''-1''))
      else Inr (start, stop, ''1''))"

definition for_step :: "node option \<Rightarrow> string \<Rightarrow> gres \<Rightarrow> gres" where
  "for_step increment step right_text =
     (case increment of
        None \<Rightarrow> Inr step
      | Some inc \<Rightarrow>
          (case inc of
             ASSIGNMENT var_name incr_expr \<Rightarrow>
               (case incr_expr of
                  BINARY_EXPRESSION operator left right \<Rightarrow>
                    if operator = ''+'' then right_text
                    else if operator = ''-'' then bindE right_text (\<lambda>r. Inr (''-'' @ r))
                    else Inr step
                | OTHER t \<Rightarrow> if t = ''BINARY_EXPRESSION'' then Inl KeyError else Inr step
                | _ \<Rightarrow> Inr step)
           | INCREMENT var_name operator \<Rightarrow> Inr (if operator = ''++'' then ''1'' else ''-1'')
           | OTHER t \<Rightarrow> if t \<in> {''ASSIGNMENT'', ''INCREMENT''} then Inl KeyError else Inr step
           | _ \<Rightarrow> Inr step))"

definition for_range ::
  "node \<Rightarrow> node \<Rightarrow> node option \<Rightarrow> gres \<Rightarrow> gres \<Rightarrow> gres \<Rightarrow> exn + (string \<times> string \<times> string)" where
  "for_range init condition increment init_text stop_text right_text =
     bindE (for_start init init_text) (\<lambda>start.
       case condition of
         BINARY_EXPRESSION operator left right \<Rightarrow>
           bindE stop_text (\<lambda>stop.
           bindE (for_bounds operator start stop) (\<lambda>(start1, stop1, step1).
           bindE (for_step increment step1 right_text) (\<lambda>step2.
           Inr (start1, stop1, step2))))
       | _ \<Rightarrow> Inl KeyError)"

definition for_loop_text ::
  "node \<Rightarrow> exn + (string \<times> string \<times> string) \<Rightarrow> gres \<Rightarrow> gres" where
  "for_loop_text init range_args body_text =
     bindE range_args (\<lambda>(start, stop, step).
       case var_name_of init of
         None \<Rightarrow> Inl KeyError
       | Some var_name \<Rightarrow>
           bindE body_text (\<lambda>body_str.
           Inr (''for '' @ var_name @ '' in range('' @ start @ '', '' @ stop @ '', '' @ step @ ''):''
                @ [NL] @ ''    '' @ indent body_str)))"

definition while_loop_text :: "gres \<Rightarrow> gres \<Rightarrow> gres" where
  "while_loop_text condition_text body_text =
     bindE condition_text (\<lambda>condition_str.
     bindE body_text (\<lambda>body.
     Inr (''while '' @ condition_str @ '':'' @ [NL] @ ''    '' @ indent body)))"

definition increment_text :: "string \<Rightarrow> string \<Rightarrow> gres" where
  "increment_text var_name operator =
     (if operator = ''++'' then Inr (var_name @ '' += 1'')
      else if operator = ''--'' then Inr (var_name @ '' -= 1'')
      else Inl ValueError)"

definition binary_expression_text :: "string \<Rightarrow> gres \<Rightarrow> gres \<Rightarrow> gres" where
  "binary_expression_text operator left_text right_text =
     bindE left_text (\<lambda>left.
     bindE right_text (\<lambda>right.
     Inr (left @ '' '' @ operator @ '' '' @ right)))"

definition return_statement_text :: "converter \<Rightarrow> node \<Rightarrow> gres \<Rightarrow> gres" where
  "return_statement_text C n e_text =
     bindE e_text (\<lambda>expression.
       case find_parent C n of
         Some (FUNCTION_DEFINITION return_type func_name body) \<Rightarrow>
           if func_name \<noteq> ''main'' then Inr (''return '' @ expression) else Inr []
       | _ \<Rightarrow> Inr [])"

definition if_statement_text :: "gres \<Rightarrow> gres \<Rightarrow> gres \<Rightarrow> gres" where
  "if_statement_text condition_text true_text false_text =
     bindE condition_text (\<lambda>condition.
     bindE true_text (\<lambda>true_branch_str.
     bindE false_text (\<lambda>rest.
     Inr (''if '' @ condition @ '':'' @ [NL] @ ''    '' @ indent true_branch_str @ rest))))"

definition elif_text :: "gres \<Rightarrow> gres \<Rightarrow> gres \<Rightarrow> gres" where
  "elif_text condition_text true_text false_text =
     bindE condition_text (\<lambda>next_condition.
     bindE true_text (\<lambda>next_true_branch_str.
     bindE false_text (\<lambda>rest.
     Inr ([NL] @ ''elif '' @ next_condition @ '':'' @ [NL] @ ''    ''
          @ indent next_true_branch_str @ rest))))"

definition else_text :: "gres \<Rightarrow> gres" where
  "else_text false_text =
     bindE false_text (\<lambda>false_branch_str.
     Inr ([NL] @ ''else:'' @ [NL] @ ''    '' @ indent false_branch_str))"

text \<open>A node with no field but its \<open>type\<close>.\<close>

definition fieldless_text :: "string \<Rightarrow> gres" where
  "fieldless_text t =
     (if t = ''IO_STATEMENT'' then Inr ''print()''
      else if t \<in> set handled_types then Inl KeyError
      else Inr [])"

definition block_text :: "bool \<Rightarrow> exn + string list \<Rightarrow> gres" where
  "block_text drop_empty lines =
     bindE lines (\<lambda>xs.
       Inr (str_join [NL] (if drop_empty then filter (\<lambda>x. x \<noteq> []) xs else xs)))"

text \<open>Sizes for the termination argument of \<open>generate_node\<close>.\<close>

definition ctx_size :: "node list option \<Rightarrow> nat" where
  "ctx_size statements = (case statements of None \<Rightarrow> 0 | Some ss \<Rightarrow> size_list size ss)"

subsection \<open>\<open>generate_node\<close>\<close>

text \<open>
  \<open>generate_node C node statements position\<close>; the unused \<open>parent_statements\<close> is left
  out. \<open>generate_list\<close> is the comprehension
  \<open>[generate_node(stmt, statements, i) for i, stmt in enumerate(statements)]\<close>,
  \<open>generate_io\<close> the loop over the expressions of an I/O statement,
  \<open>generate_body\<close> the text of a loop body or branch (a block's lines, with or
  without the empty ones, or a single statement), \<open>process_false_branch\<close> the text
  appended for an \<open>else\<close> part.
\<close>

function (sequential) generate_node :: "converter \<Rightarrow> node \<Rightarrow> node list option \<Rightarrow> nat \<Rightarrow> gres"
  and generate_list :: "converter \<Rightarrow> node list \<Rightarrow> nat \<Rightarrow> node list \<Rightarrow> exn + string list"
  and generate_io :: "converter \<Rightarrow> string \<Rightarrow> node list \<Rightarrow> exn + (string list \<times> string list)"
  and generate_body :: "converter \<Rightarrow> bool \<Rightarrow> node \<Rightarrow> gres"
  and process_false_branch :: "converter \<Rightarrow> node \<Rightarrow> gres"
where
  "generate_node C (PROGRAM ss) statements position = program_text (generate_list C ss 0 ss)"
| "generate_node C (FUNCTION_DEFINITION rt func_name body) statements position =
     function_definition_text C func_name (generate_list C body 0 body)"
| "generate_node C (IO_STATEMENT io_operator es) statements position =
     io_statement_text C io_operator es (generate_io C io_operator es) statements position
       (case prev_prompt_expr statements position of
          None \<Rightarrow> Inr []
        | Some e \<Rightarrow> generate_node C e None 0)"
| "generate_node C (VARIABLE_DECLARATION var_type var_name initializer) statements position =
     (case initializer of
        None \<Rightarrow> Inr []
      | Some e \<Rightarrow> bindE (generate_node C e None 0) (\<lambda>i. Inr (var_name @ '' = '' @ i)))"
| "generate_node C (ASSIGNMENT var_name expression) statements position =
     assignment_text var_name expression (generate_node C expression None 0)
       (case expression of
          BINARY_EXPRESSION operator left right \<Rightarrow> generate_node C right None 0
        | _ \<Rightarrow> Inr [])"
| "generate_node C (EXPRESSION_STATEMENT expression) statements position =
     generate_node C expression None 0"
| "generate_node C (FOR_LOOP init condition increment body) statements position =
     for_loop_text init
       (for_range init condition increment
          (case init of
             VARIABLE_DECLARATION var_type var_name (Some initializer) \<Rightarrow>
               generate_node C initializer None 0
           | ASSIGNMENT var_name expression \<Rightarrow> generate_node C expression None 0
           | _ \<Rightarrow> Inr [])
          (case condition of
             BINARY_EXPRESSION operator left right \<Rightarrow> generate_node C right None 0
           | _ \<Rightarrow> Inr [])
          (case increment of
             Some (ASSIGNMENT var_name (BINARY_EXPRESSION operator left right)) \<Rightarrow>
               generate_node C right None 0
           | _ \<Rightarrow> Inr []))
       (generate_body C False body)"
| "generate_node C (WHILE_LOOP condition body) statements position =
     while_loop_text (generate_node C condition None 0) (generate_body C True body)"
| "generate_node C (INCREMENT var_name operator) statements position =
     increment_text var_name operator"
| "generate_node C (BINARY_EXPRESSION operator left right) statements position =
     binary_expression_text operator (generate_node C left None 0) (generate_node C right None 0)"
| "generate_node C (STRING_LITERAL v) statements position = Inr v"
| "generate_node C (NUMBER v) statements position = Inr v"
| "generate_node C (IDENTIFIER v) statements position = Inr v"
| "generate_node C (RETURN_STATEMENT expression) statements position =
     return_statement_text C (RETURN_STATEMENT expression) (generate_node C expression None 0)"
| "generate_node C (IF_STATEMENT condition true_branch false_branch) statements position =
     if_statement_text (generate_node C condition None 0) (generate_body C True true_branch)
       (case false_branch of
          None \<Rightarrow> Inr []
        | Some fb \<Rightarrow> process_false_branch C fb)"
| "generate_node C (OTHER t) statements position = fieldless_text t"
| "generate_node C n statements position = Inr []"
| "generate_list C statements i [] = Inr []"
| "generate_list C statements i (stmt # rest) =
     bindE (generate_node C stmt (Some statements) i) (\<lambda>x.
     bindE (generate_list C statements (Suc i) rest) (\<lambda>xs. Inr (x # xs)))"
| "generate_io C io_operator [] = Inr ([], [])"
| "generate_io C io_operator (expr_node # rest) =
     io_step io_operator expr_node (generate_node C expr_node None 0)
       (case expr_node of
          BINARY_EXPRESSION operator left right \<Rightarrow> generate_node C left None 0
        | _ \<Rightarrow> Inr [])
       (case expr_node of
          BINARY_EXPRESSION operator left right \<Rightarrow> generate_node C right None 0
        | _ \<Rightarrow> Inr [])
       (generate_io C io_operator rest)"
| "generate_body C drop_empty (BLOCK ss) = block_text drop_empty (generate_list C ss 0 ss)"
| "generate_body C drop_empty (OTHER t) =
     (if t = ''BLOCK'' then Inl KeyError else generate_node C (OTHER t) None 0)"
| "generate_body C drop_empty body = generate_node C body None 0"
| "process_false_branch C (IF_STATEMENT condition true_branch false_branch) =
     elif_text (generate_node C condition None 0) (generate_body C True true_branch)
       (case false_branch of
          None \<Rightarrow> Inr []
        | Some fb \<Rightarrow> process_false_branch C fb)"
| "process_false_branch C (OTHER t) =
     (if t = ''IF_STATEMENT'' then Inl KeyError else else_text (generate_body C True (OTHER t)))"
| "process_false_branch C fb = else_text (generate_body C True fb)"
  by pat_completeness auto

text \<open>Every statement of a list is smaller than the list.\<close>

lemma size_nth_le: "i < length ss \<Longrightarrow> size (ss ! i) < Suc (size_list size ss)"
proof (induction ss arbitrary: i)
  case Nil
  then show ?case by simp
next
  case (Cons a ss)
  show ?case
  proof (cases i)
    case 0
    then show ?thesis by simp
  next
    case (Suc j)
    with Cons.prems have "j < length ss" by simp
    from Cons.IH [OF this] Suc show ?thesis by simp
  qed
qed

lemma prev_prompt_expr_size:
  "prev_prompt_expr statements position = Some e \<Longrightarrow> size e < ctx_size statements"
proof -
  assume a: "prev_prompt_expr statements position = Some e"
  then obtain ss where ss: "statements = Some ss"
    by (cases statements) (auto simp: prev_prompt_expr_def)
  from a ss obtain io es where p: "0 < position" "position - 1 < length ss"
    "ss ! (position - 1) = IO_STATEMENT io (e # es)"
    by (auto simp: prev_prompt_expr_def split: if_splits node.splits list.splits)
  from size_nth_le [OF p(2)] p(3) have "size e < size_list size ss" by simp
  with ss show ?thesis by (simp add: ctx_size_def)
qed

termination generate_node
  apply (relation "measures [
     (\<lambda>x. case x of
        Inl (Inl (C, n, statements, position)) \<Rightarrow> max (size n) (ctx_size statements)
      | Inl (Inr (C, statements, i, rest)) \<Rightarrow> max (size_list size rest) (size_list size statements)
      | Inr (Inl (C, io, es)) \<Rightarrow> size_list size es
      | Inr (Inr (Inl (C, d, b))) \<Rightarrow> size b
      | Inr (Inr (Inr (C, fb))) \<Rightarrow> size fb),
     (\<lambda>x. case x of
        Inl (Inl (C, n, statements, position)) \<Rightarrow> 0
      | Inl (Inr (C, statements, i, rest)) \<Rightarrow> 1
      | Inr (Inl (C, io, es)) \<Rightarrow> 0
      | Inr (Inr (Inl (C, d, b))) \<Rightarrow> 1
      | Inr (Inr (Inr (C, fb))) \<Rightarrow> 2),
     (\<lambda>x. case x of
        Inl (Inl (C, n, statements, position)) \<Rightarrow> 0
      | Inl (Inr (C, statements, i, rest)) \<Rightarrow> length rest
      | Inr (Inl (C, io, es)) \<Rightarrow> 0
      | Inr (Inr (Inl (C, d, b))) \<Rightarrow> 0
      | Inr (Inr (Inr (C, fb))) \<Rightarrow> 0)]")
  apply (auto simp: ctx_size_def dest: prev_prompt_expr_size)
  done


subsection \<open>\<open>generate_code\<close>\<close>

definition main_wrapper :: "string \<Rightarrow> string" where
  "main_wrapper converted_code =
     ''def main():'' @ [NL] @ ''    '' @ indent converted_code @ [NL, NL]
       @ ''if __name__ == '' @ [DQ] @ ''__main__'' @ [DQ] @ '':'' @ [NL] @ ''    main()''"

text \<open>
  \<open>Converter(ast, use_main).generate_code()\<close>: the analysis on a fresh analyzer, the
  gate \<open>if errors: return ""\<close>, and the text of the tree.
\<close>

definition generate_code :: "node \<Rightarrow> bool \<Rightarrow> gres" where
  "generate_code ast with_main =
     bindE (analyze_run ast) (\<lambda>(st, errors).
       if errors \<noteq> [] then Inr []
       else
         bindE (generate_node \<lparr>conv_ast = ast, use_main = with_main, analyzer_scopes = st\<rparr>
                  ast None 0) (\<lambda>text.
         let converted_code = strip text in
         Inr (if with_main then main_wrapper converted_code else converted_code)))"

text \<open>Tokenizer and parser in a row; \<open>None\<close> is a tokenizer that never returns.\<close>

definition cpp_parse :: "string \<Rightarrow> (exn + node) option" where
  "cpp_parse source = map_option (\<lambda>tokens. bindE tokens parse_program) (cpp_tokenize source)"

text \<open>
  The four stages in a row, as section 2 of the specification chains them (the driver
  \<open>main_cpp.process_file\<close> that the user interface imports is not among the source
  files): tokenize, parse, then \<open>generate_code\<close>, which analyzes and generates, with
  the constructor's default \<open>use_main = False\<close>.
\<close>

definition cpp_to_python :: "string \<Rightarrow> gres option" where
  "cpp_to_python source =
     map_option (\<lambda>ast. bindE ast (\<lambda>a. generate_code a False)) (cpp_parse source)"

subsection \<open>Reading the diagnostics and the generated loops\<close>





text \<open>
  What the two loop forms mean. Python's \<open>range(start, stop, step)\<close> lists
  \<open>start, start + step, ...\<close> up to, not including, \<open>stop\<close> (down to it for a
  negative step), and raises \<open>ValueError\<close> for a zero step.
\<close>

definition py_range :: "int \<Rightarrow> int \<Rightarrow> int \<Rightarrow> exn + int list" where
  "py_range start stop step =
     (if step = 0 then Inl ValueError
      else if 0 < step then
        Inr (map (\<lambda>k. start + int k * step) [0 ..< nat ((stop - start + step - 1) div step)])
      else
        Inr (map (\<lambda>k. start + int k * step) [0 ..< nat ((start - stop - step - 1) div (- step))]))"

text \<open>
  The values the variable of \<open>for (i = start; cond(i); i += step)\<close> takes in the loop
  body, over unbounded integers; a loop whose condition never fails has no value.
\<close>

partial_function (option) cpp_for_values ::
  "(int \<Rightarrow> bool) \<Rightarrow> int \<Rightarrow> int \<Rightarrow> int list \<Rightarrow> int list option" where
  "cpp_for_values cond step i acc =
     (if cond i then cpp_for_values cond step (i + step) (acc @ [i]) else Some acc)"

declare cpp_for_values.simps [code]

section \<open>The syntax tree of the Python-side parser (python_parser.py)\<close>

text \<open>
  The same vocabulary with the Python parser's fields: a \<open>FOR_LOOP\<close> holds its
  \<open>iterator\<close>, then \<open>limit\<close>, \<open>start\<close>, \<open>stop\<close> and \<open>step\<close> (each present or not)
  and its \<open>body\<close> list; a \<open>WHILE_LOOP\<close> body is a list; an \<open>IO_STATEMENT\<close> has one
  \<open>expression\<close>. \<open>P_OTHER t\<close> is a node whose \<open>type\<close> is \<open>t\<close> and that has no other
  field.
\<close>

datatype pnode =
    P_PROGRAM "pnode list"
  | P_FUNCTION_DEFINITION string string "pnode list"
  | P_FOR_LOOP string "pnode option" "pnode option" "pnode option" "pnode option" "pnode list"
  | P_WHILE_LOOP pnode "pnode list"
  | P_VARIABLE_DECLARATION string string "pnode option"
  | P_ASSIGNMENT string pnode
  | P_FUNCTION_CALL string "pnode list"
  | P_IF_STATEMENT pnode pnode "pnode option"
  | P_IO_STATEMENT string pnode
  | P_PRINT_STATEMENT "pnode list"
  | P_BLOCK "pnode list"
  | P_BINARY_EXPRESSION string pnode pnode
  | P_NUMBER string
  | P_STRING_LITERAL string
  | P_IDENTIFIER string
  | P_OTHER string

primrec pnode_type :: "pnode \<Rightarrow> string" where
  "pnode_type (P_PROGRAM ss) = ''PROGRAM''"
| "pnode_type (P_FUNCTION_DEFINITION rt f body) = ''FUNCTION_DEFINITION''"
| "pnode_type (P_FOR_LOOP it limit start stop step body) = ''FOR_LOOP''"
| "pnode_type (P_WHILE_LOOP c body) = ''WHILE_LOOP''"
| "pnode_type (P_VARIABLE_DECLARATION t v i) = ''VARIABLE_DECLARATION''"
| "pnode_type (P_ASSIGNMENT v e) = ''ASSIGNMENT''"
| "pnode_type (P_FUNCTION_CALL f args) = ''FUNCTION_CALL''"
| "pnode_type (P_IF_STATEMENT c t f) = ''IF_STATEMENT''"
| "pnode_type (P_IO_STATEMENT io e) = ''IO_STATEMENT''"
| "pnode_type (P_PRINT_STATEMENT args) = ''PRINT_STATEMENT''"
| "pnode_type (P_BLOCK ss) = ''BLOCK''"
| "pnode_type (P_BINARY_EXPRESSION op l r) = ''BINARY_EXPRESSION''"
| "pnode_type (P_NUMBER v) = ''NUMBER''"
| "pnode_type (P_STRING_LITERAL v) = ''STRING_LITERAL''"
| "pnode_type (P_IDENTIFIER v) = ''IDENTIFIER''"
| "pnode_type (P_OTHER t) = t"

section \<open>The Python-side semantic analyzer (python_semantic_analyzer.py)\<close>

definition py_expression_types :: "string list" where
  "py_expression_types =
     [''BINARY_EXPRESSION'', ''IDENTIFIER'', ''NUMBER'', ''STRING_LITERAL'', ''FUNCTION_CALL'']"

text \<open>The checks of one statement that look at no nested statement.\<close>

definition py_print_errors :: "pnode list \<Rightarrow> string list" where
  "py_print_errors args =
     (if args = [] then [''Print statement must have at least one argument to print.'']
      else map (\<lambda>arg. ''Print statement only supports string literals, identifiers, ''
                  @ ''binary expressions, numbers, or function calls. Found: '' @ pnode_type arg)
             (filter (\<lambda>arg. pnode_type arg \<notin> set py_expression_types) args))"

definition py_assignment_errors :: "string \<Rightarrow> pnode \<Rightarrow> exn + string list" where
  "py_assignment_errors var_name expr =
     (let e1 = (if var_name = []
                  then [''Assignment must have a valid variable name, got: '' @ var_name]
                else [])
      in case expr of
           P_FUNCTION_CALL func_name args \<Rightarrow>
             Inr (e1 @ (if func_name \<notin> {''input'', ''int''}
                          then [''Unsupported function call '' @ quoted func_name @ '' in assignment.'']
                        else []))
         | P_OTHER t \<Rightarrow> if t = ''FUNCTION_CALL'' then Inl KeyError else Inr e1
         | _ \<Rightarrow> Inr e1)"

definition py_for_header_errors ::
  "string \<Rightarrow> pnode option \<Rightarrow> pnode option \<Rightarrow> pnode option \<Rightarrow> pnode option \<Rightarrow> string list" where
  "py_for_header_errors iterator limit start stop step =
     (if iterator = [] then [''For loop must have a valid iterator variable.''] else [])
     @ (if limit \<noteq> None then
          (if start \<noteq> None \<or> stop \<noteq> None \<or> step \<noteq> None
             then [''For loop with '' @ quoted ''limit'' @ '' cannot have '' @ quoted ''start''
                    @ '', '' @ quoted ''stop'' @ '', or '' @ quoted ''step'' @ ''.'']
           else [])
        else
          (if start = None then [''For loop with multiple arguments must have a start value.'']
           else [])
          @ (if stop = None then [''For loop with multiple arguments must have a stop value.'']
             else []))"

definition py_condition_errors :: "pnode \<Rightarrow> string \<Rightarrow> string list" where
  "py_condition_errors condition what =
     (if pnode_type condition \<notin> set py_expression_types
        then [''Invalid condition type in '' @ what @ '': '' @ pnode_type condition]
      else [])"

text \<open>A statement that has no field but its \<open>type\<close>.\<close>

definition py_fieldless_errors :: "string \<Rightarrow> exn + string list" where
  "py_fieldless_errors t =
     (if t = ''PRINT_STATEMENT''
        then Inr [''Print statement must have at least one argument to print.'']
      else if t = ''ASSIGNMENT'' then Inl KeyError
      else if t = ''FOR_LOOP'' then
        Inr [''For loop must have a valid iterator variable.'',
             ''For loop with multiple arguments must have a start value.'',
             ''For loop with multiple arguments must have a stop value.'',
             ''For loop must have a body.'']
      else if t = ''WHILE_LOOP''
        then Inr [''While loop must have a condition.'', ''While loop must have a body.'']
      else if t = ''IF_STATEMENT''
        then Inr [''If statement must have a condition.'', ''If statement must have a true branch.'']
      else if t = ''FUNCTION_CALL'' then Inr [''Function call must have a name and arguments.'']
      else if t = ''RETURN_STATEMENT'' then Inr [''Return statement must have an expression.'']
      else if t = ''VARIABLE_DECLARATION''
        then Inr [''Variable declaration must have a type and name.'']
      else if t = ''IO_STATEMENT'' then Inr [''IO statement must have an operator and expression.'']
      else if t = ''BLOCK'' then Inl KeyError
      else Inr [''Unsupported statement type: '' @ t])"

text \<open>
  \<open>py_analyze_statement\<close> is one round of the loop of \<open>PythonSemanticAnalyzer.analyze\<close>
  and returns the errors that round appends; \<open>py_analyze_statements\<close> is the loop,
  that is \<open>analyze({'statements': ss})\<close>. The loop over a body, which calls
  \<open>analyze({'statements': [stmt]})\<close> for each statement and extends \<open>errors\<close>, appends
  the same errors in the same order.
\<close>

fun py_analyze_statement :: "pnode \<Rightarrow> exn + string list"
  and py_analyze_statements :: "pnode list \<Rightarrow> exn + string list"
where
  "py_analyze_statement (P_PRINT_STATEMENT args) = Inr (py_print_errors args)"
| "py_analyze_statement (P_ASSIGNMENT var_name expr) = py_assignment_errors var_name expr"
| "py_analyze_statement (P_FOR_LOOP iterator limit start stop step body) =
     bindE (py_analyze_statements body) (\<lambda>sub_errors.
     Inr (py_for_header_errors iterator limit start stop step @ sub_errors))"
| "py_analyze_statement (P_WHILE_LOOP condition body) =
     bindE (py_analyze_statements body) (\<lambda>sub_errors.
     Inr (py_condition_errors condition ''while loop'' @ sub_errors))"
| "py_analyze_statement (P_IF_STATEMENT condition true_branch false_branch) =
     bindE (case true_branch of
              P_BLOCK ss \<Rightarrow> py_analyze_statements ss
            | P_OTHER t \<Rightarrow> if t = ''BLOCK'' then Inl KeyError
                            else py_analyze_statement true_branch
            | _ \<Rightarrow> py_analyze_statement true_branch) (\<lambda>true_errors.
     bindE (case false_branch of
              None \<Rightarrow> Inr []
            | Some (P_BLOCK ss) \<Rightarrow> py_analyze_statements ss
            | Some (P_OTHER t) \<Rightarrow> if t = ''BLOCK'' then Inl KeyError
                                   else py_analyze_statement (P_OTHER t)
            | Some fb \<Rightarrow> py_analyze_statement fb) (\<lambda>false_errors.
     Inr (py_condition_errors condition ''if statement'' @ true_errors @ false_errors)))"
| "py_analyze_statement (P_FUNCTION_CALL func_name args) = Inr []"
| "py_analyze_statement (P_VARIABLE_DECLARATION var_type var_name initializer) =
     (case initializer of
        None \<Rightarrow> Inr []
      | Some init \<Rightarrow>
          Inr (if pnode_type init \<notin> set py_expression_types
                 then [''Variable initializer must be a valid expression, got: '' @ pnode_type init]
               else []))"
| "py_analyze_statement (P_IO_STATEMENT io_operator expression) = Inr []"
| "py_analyze_statement (P_BLOCK ss) = py_analyze_statements ss"
| "py_analyze_statement (P_OTHER t) = py_fieldless_errors t"
| "py_analyze_statement statement = Inr [''Unsupported statement type: '' @ pnode_type statement]"
| "py_analyze_statements [] = Inr []"
| "py_analyze_statements (statement # rest) =
     bindE (py_analyze_statement statement) (\<lambda>errors.
     bindE (py_analyze_statements rest) (\<lambda>more. Inr (errors @ more)))"


section \<open>The Python-to-C++ generator (python_to_cpp_converter.py)\<close>

text \<open>A truthy \<open>target_var\<close>: given and not the empty string.\<close>

definition has_target :: "string option \<Rightarrow> bool" where
  "has_target target_var = (case target_var of None \<Rightarrow> False | Some v \<Rightarrow> v \<noteq> [])"

definition cout_cin :: "string \<Rightarrow> string option \<Rightarrow> string" where
  "cout_cin prompt target_var =
     ''    cout << '' @ prompt @ '';'' @ [NL] @ ''    cin >> '' @ (case target_var of None \<Rightarrow> [] | Some v \<Rightarrow> v) @ '';''"

text \<open>
  \<open>generate_expression\<close>; \<open>generate_expressions w\<close> is the comprehension
  \<open>[generate_expression(arg, wrap_binary=w) for arg in args]\<close>.
\<close>

fun generate_expression :: "pnode \<Rightarrow> string option \<Rightarrow> bool \<Rightarrow> gres"
  and generate_expressions :: "bool \<Rightarrow> pnode list \<Rightarrow> exn + string list"
where
  "generate_expression (P_STRING_LITERAL v) target_var wrap_binary =
     Inr ([DQ] @ butlast (tl v) @ [DQ])"
| "generate_expression (P_IDENTIFIER v) target_var wrap_binary = Inr v"
| "generate_expression (P_NUMBER v) target_var wrap_binary = Inr v"
| "generate_expression (P_BINARY_EXPRESSION operator left right) target_var wrap_binary =
     bindE (generate_expression left None False) (\<lambda>l.
     bindE (generate_expression right None False) (\<lambda>r.
     let expr = l @ '' '' @ operator @ '' '' @ r in
     Inr (if wrap_binary then ''('' @ expr @ '')'' else expr)))"
| "generate_expression (P_FUNCTION_CALL func_name args) target_var wrap_binary =
     bindE (generate_expressions False args) (\<lambda>arg_texts.
       if func_name = ''input'' \<and> has_target target_var then
         Inr (cout_cin (case arg_texts of [] \<Rightarrow> [DQ, DQ] | a # _ \<Rightarrow> a) target_var)
       else if func_name = ''int'' \<and> has_target target_var then
         (case args of
            [] \<Rightarrow> Inl IndexError
          | nested_input # _ \<Rightarrow>
              (case nested_input of
                 P_FUNCTION_CALL nested_name nested_args \<Rightarrow>
                   if nested_name = ''input'' then
                     (case nested_args of
                        [] \<Rightarrow> Inr (cout_cin [DQ, DQ] target_var)
                      | a # _ \<Rightarrow>
                          bindE (generate_expression a None False) (\<lambda>prompt.
                          Inr (cout_cin prompt target_var)))
                   else Inr []
               | P_OTHER t \<Rightarrow> if t = ''FUNCTION_CALL'' then Inl KeyError else Inr []
               | _ \<Rightarrow> Inr []))
       else Inr [])"
| "generate_expression (P_OTHER t) target_var wrap_binary =
     (if t \<in> {''STRING_LITERAL'', ''IDENTIFIER'', ''NUMBER'', ''BINARY_EXPRESSION'', ''FUNCTION_CALL''}
        then Inl KeyError
      else Inr [])"
| "generate_expression n target_var wrap_binary = Inr []"
| "generate_expressions wrap_binary [] = Inr []"
| "generate_expressions wrap_binary (arg # rest) =
     bindE (generate_expression arg None wrap_binary) (\<lambda>x.
     bindE (generate_expressions wrap_binary rest) (\<lambda>xs. Inr (x # xs)))"

text \<open>\<open>determine_value_type\<close>: \<open>"number"\<close>, \<open>"string"\<close> or \<open>"unknown"\<close>.\<close>

fun determine_value_type :: "pnode \<Rightarrow> exn + string" where
  "determine_value_type (P_NUMBER v) = Inr ''number''"
| "determine_value_type (P_STRING_LITERAL v) = Inr ''string''"
| "determine_value_type (P_FUNCTION_CALL func_name args) =
     Inr (if func_name = ''input'' then ''string''
          else if func_name = ''int'' then ''number''
          else ''unknown'')"
| "determine_value_type (P_BINARY_EXPRESSION operator left right) =
     (if operator = ''+'' then
        bindE (determine_value_type left) (\<lambda>left_type.
        bindE (determine_value_type right) (\<lambda>right_type.
        Inr (if left_type = ''string'' \<or> right_type = ''string'' then ''string'' else ''number'')))
      else Inr ''unknown'')"
| "determine_value_type (P_OTHER t) =
     (if t \<in> {''FUNCTION_CALL'', ''BINARY_EXPRESSION''} then Inl KeyError
      else if t = ''NUMBER'' then Inr ''number''
      else if t = ''STRING_LITERAL'' then Inr ''string''
      else Inr ''unknown'')"
| "determine_value_type n = Inr ''unknown''"

text \<open>
  A statement's text together with \<open>self.variables\<close> as the statement leaves it.
\<close>

type_synonym pres = "exn + (string \<times> string set)"

definition typed_declaration :: "string \<Rightarrow> string" where
  "typed_declaration var_type =
     (if var_type = ''string'' then ''string''
      else if var_type = ''number'' then ''int''
      else ''auto'')"

text \<open>The \<open>ASSIGNMENT\<close> rule of \<open>process_node\<close>.\<close>

definition is_compound :: "string \<Rightarrow> pnode \<Rightarrow> exn + bool" where
  "is_compound var_name expr =
     (case expr of
        P_BINARY_EXPRESSION operator left right \<Rightarrow>
          if operator \<in> set compound_operators then
            (case left of
               P_IDENTIFIER v \<Rightarrow> Inr (v = var_name)
             | P_OTHER t \<Rightarrow> if t = ''IDENTIFIER'' then Inl KeyError else Inr False
             | _ \<Rightarrow> Inr False)
          else Inr False
      | P_OTHER t \<Rightarrow> if t = ''BINARY_EXPRESSION'' then Inl KeyError else Inr False
      | _ \<Rightarrow> Inr False)"

definition process_compound :: "string set \<Rightarrow> string \<Rightarrow> string \<Rightarrow> pnode \<Rightarrow> pres" where
  "process_compound variables var_name operator right_node =
     bindE (generate_expression right_node None False) (\<lambda>right.
       if var_name \<notin> variables then
         bindE (determine_value_type right_node) (\<lambda>var_type.
         Inr (''    '' @ typed_declaration var_type @ '' '' @ var_name @ '' = '' @ right @ '';''
                @ [NL] @ ''    '' @ var_name @ '' '' @ operator @ ''= '' @ right @ '';'',
              insert var_name variables))
       else Inr (''    '' @ var_name @ '' '' @ operator @ ''= '' @ right @ '';'', variables))"

definition process_regular :: "string set \<Rightarrow> string \<Rightarrow> pnode \<Rightarrow> pres" where
  "process_regular variables var_name expr =
     bindE (generate_expression expr (Some var_name) False) (\<lambda>expr_result.
       if var_name \<notin> variables then
         bindE (determine_value_type expr) (\<lambda>var_type.
           if (var_type = ''string'' \<or> var_type = ''number'')
              \<and> startswith expr_result ''    cout''
             then Inr (''    '' @ typed_declaration var_type @ '' '' @ var_name @ '';'' @ [NL]
                         @ expr_result,
                       insert var_name variables)
           else Inr (''    '' @ typed_declaration var_type @ '' '' @ var_name @ '' = ''
                       @ expr_result @ '';'',
                     insert var_name variables))
       else Inr (if expr_result \<noteq> [] then ''    '' @ var_name @ '' = '' @ expr_result @ '';'' else [],
                 variables))"

definition process_assignment :: "string set \<Rightarrow> string \<Rightarrow> pnode \<Rightarrow> pres" where
  "process_assignment variables var_name expr =
     bindE (is_compound var_name expr) (\<lambda>compound.
       if compound then
         (case expr of
            P_BINARY_EXPRESSION operator left right \<Rightarrow>
              process_compound variables var_name operator right
          | _ \<Rightarrow> Inl KeyError)
       else process_regular variables var_name expr)"

definition process_print :: "string set \<Rightarrow> pnode list \<Rightarrow> pres" where
  "process_print variables args =
     bindE (generate_expressions True args) (\<lambda>cpp_args.
     Inr (''    cout << '' @ str_join '' << '' cpp_args @ '' << endl;'', variables))"


text \<open>Block lines behind eight spaces, the empty ones dropped.\<close>

definition body_lines_text :: "(string \<Rightarrow> string) \<Rightarrow> string list \<Rightarrow> string" where
  "body_lines_text f body_lines =
     str_join [NL] (map (\<lambda>line. ''        '' @ f line) (filter (\<lambda>line. line \<noteq> []) body_lines))"

text \<open>The header of the \<open>FOR_LOOP\<close> rule: the texts of \<open>start\<close>, \<open>stop\<close> and \<open>step\<close>.\<close>

definition py_for_header ::
  "pnode option \<Rightarrow> pnode option \<Rightarrow> pnode option \<Rightarrow> pnode option
     \<Rightarrow> exn + (string \<times> string \<times> string)" where
  "py_for_header limit start stop step =
     bindE (case start of None \<Rightarrow> Inr ''0'' | Some e \<Rightarrow> generate_expression e None False)
       (\<lambda>start_text.
     bindE (case stop of
              Some e \<Rightarrow> generate_expression e None False
            | None \<Rightarrow> (case limit of
                         None \<Rightarrow> Inl KeyError
                       | Some e \<Rightarrow> generate_expression e None False))
       (\<lambda>stop_text.
     bindE (case step of None \<Rightarrow> Inr ''1'' | Some e \<Rightarrow> generate_expression e None False)
       (\<lambda>step_text. Inr (start_text, stop_text, step_text))))"

definition py_for_text ::
  "string set \<Rightarrow> string \<Rightarrow> string \<Rightarrow> string \<Rightarrow> string \<Rightarrow> string list \<Rightarrow> string \<times> string set" where
  "py_for_text variables iterator start stop step body_lines =
     (let body = body_lines_text rstrip body_lines;
          increment = (if step = ''1'' then iterator @ ''++''
                       else iterator @ '' += '' @ step)
      in if iterator \<notin> variables then
           (''    for (int '' @ iterator @ '' = '' @ start @ ''; '' @ iterator @ '' < '' @ stop
              @ ''; '' @ increment @ '') {'' @ [NL] @ body @ [NL] @ ''    }'',
            insert iterator variables)
         else
           (''    for ('' @ iterator @ '' = '' @ start @ ''; '' @ iterator @ '' < '' @ stop
              @ ''; '' @ increment @ '') {'' @ [NL] @ body @ [NL] @ ''    }'',
            variables))"

definition process_handled_types :: "string list" where
  "process_handled_types =
     [''ASSIGNMENT'', ''PRINT_STATEMENT'', ''IF_STATEMENT'', ''WHILE_LOOP'', ''FOR_LOOP'', ''BLOCK'']"

text \<open>
  \<open>process_node\<close>, with \<open>self.variables\<close> passed in and returned.
  \<open>process_nodes\<close> is the comprehension \<open>[process_node(stmt) for stmt in statements]\<close>,
  \<open>process_branch\<close> the body of a branch (a block's lines, or one statement),
  \<open>process_else\<close> the \<open>while false_branch\<close> loop over the \<open>else\<close> parts.
\<close>

function (sequential) process_node :: "string set \<Rightarrow> pnode \<Rightarrow> pres"
  and process_nodes :: "string set \<Rightarrow> pnode list \<Rightarrow> exn + (string list \<times> string set)"
  and process_branch :: "string set \<Rightarrow> pnode \<Rightarrow> pres"
  and process_else :: "string set \<Rightarrow> pnode option \<Rightarrow> pres"
where
  "process_node variables (P_ASSIGNMENT var_name expr) = process_assignment variables var_name expr"
| "process_node variables (P_PRINT_STATEMENT args) = process_print variables args"
| "process_node variables (P_IF_STATEMENT condition true_branch false_branch) =
     bindE (generate_expression condition None False) (\<lambda>condition_text.
     bindE (process_branch variables true_branch) (\<lambda>(body, variables1).
     bindE (process_else variables1 false_branch) (\<lambda>(rest, variables2).
     Inr (''    if ('' @ condition_text @ '') {'' @ [NL] @ body @ [NL] @ ''    }'' @ rest,
          variables2))))"
| "process_node variables (P_WHILE_LOOP condition body) =
     bindE (generate_expression condition None False) (\<lambda>condition_text.
     bindE (process_nodes variables body) (\<lambda>(body_lines, variables1).
     Inr (''    while ('' @ condition_text @ '') {'' @ [NL] @ body_lines_text rstrip body_lines
            @ [NL] @ ''    }'',
          variables1)))"
| "process_node variables (P_FOR_LOOP iterator limit start stop step body) =
     bindE (py_for_header limit start stop step) (\<lambda>(start_text, stop_text, step_text).
     bindE (process_nodes variables body) (\<lambda>(body_lines, variables1).
     Inr (py_for_text variables1 iterator start_text stop_text step_text body_lines)))"
| "process_node variables (P_BLOCK statements) =
     bindE (process_nodes variables statements) (\<lambda>(body_lines, variables1).
     Inr (str_join [NL] (map (\<lambda>line. ''    '' @ strip line)
                           (filter (\<lambda>line. line \<noteq> []) body_lines)),
          variables1))"
| "process_node variables (P_OTHER t) =
     (if t \<in> set process_handled_types then Inl KeyError else Inr ([], variables))"
| "process_node variables n = Inr ([], variables)"
| "process_nodes variables [] = Inr ([], variables)"
| "process_nodes variables (stmt # rest) =
     bindE (process_node variables stmt) (\<lambda>(x, variables1).
     bindE (process_nodes variables1 rest) (\<lambda>(xs, variables2). Inr (x # xs, variables2)))"
| "process_branch variables (P_BLOCK statements) =
     bindE (process_nodes variables statements) (\<lambda>(body_lines, variables1).
     Inr (body_lines_text (\<lambda>line. line) body_lines, variables1))"
| "process_branch variables (P_OTHER t) =
     (if t = ''BLOCK'' then Inl KeyError
      else bindE (process_node variables (P_OTHER t)) (\<lambda>(body, variables1).
           Inr (if body \<noteq> [] then ''        '' @ body else [], variables1)))"
| "process_branch variables branch =
     bindE (process_node variables branch) (\<lambda>(body, variables1).
     Inr (if body \<noteq> [] then ''        '' @ body else [], variables1))"
| "process_else variables None = Inr ([], variables)"
| "process_else variables (Some (P_IF_STATEMENT condition true_branch false_branch)) =
     bindE (generate_expression condition None False) (\<lambda>elif_condition.
     bindE (process_branch variables true_branch) (\<lambda>(elif_body, variables1).
     bindE (process_else variables1 false_branch) (\<lambda>(rest, variables2).
     Inr ([NL] @ ''    else if ('' @ elif_condition @ '') {'' @ [NL] @ elif_body @ [NL] @ ''    }''
            @ rest,
          variables2))))"
| "process_else variables (Some (P_OTHER t)) =
     (if t = ''IF_STATEMENT'' then Inl KeyError
      else bindE (process_branch variables (P_OTHER t)) (\<lambda>(else_body, variables1).
           Inr ([NL] @ ''    else {'' @ [NL] @ else_body @ [NL] @ ''    }'', variables1)))"
| "process_else variables (Some false_branch) =
     bindE (process_branch variables false_branch) (\<lambda>(else_body, variables1).
     Inr ([NL] @ ''    else {'' @ [NL] @ else_body @ [NL] @ ''    }'', variables1))"
  by pat_completeness auto

termination
  by (relation "measures [
     (\<lambda>x. case x of
        Inl (Inl (V, n)) \<Rightarrow> size n
      | Inl (Inr (V, ns)) \<Rightarrow> size_list size ns
      | Inr (Inl (V, n)) \<Rightarrow> size n
      | Inr (Inr (V, fb)) \<Rightarrow> size_option size fb),
     (\<lambda>x. case x of
        Inl (Inl (V, n)) \<Rightarrow> 0
      | Inl (Inr (V, ns)) \<Rightarrow> 0
      | Inr (Inl (V, n)) \<Rightarrow> 1
      | Inr (Inr (V, fb)) \<Rightarrow> 0)]") auto

text \<open>
  \<open>process_program\<close>: the loop over the program's statements, with \<open>self.variables\<close>,
  \<open>self.declarations\<close> and \<open>self.statements\<close>.
\<close>

definition assignment_target_unknown :: "pnode \<Rightarrow> string set \<Rightarrow> bool" where
  "assignment_target_unknown stmt variables =
     (case stmt of P_ASSIGNMENT var_name expr \<Rightarrow> var_name \<notin> variables | _ \<Rightarrow> False)"

fun process_program_loop ::
  "string set \<Rightarrow> string list \<Rightarrow> string list \<Rightarrow> pnode list
     \<Rightarrow> exn + (string set \<times> string list \<times> string list)" where
  "process_program_loop variables declarations statements [] =
     Inr (variables, declarations, statements)"
| "process_program_loop variables declarations statements (stmt # rest) =
     bindE (process_node variables stmt) (\<lambda>(result, variables1).
       if result \<noteq> [] then
         (if assignment_target_unknown stmt variables1
            then process_program_loop variables1 (declarations @ [rstrip result]) statements rest
          else process_program_loop variables1 declarations (statements @ [rstrip result]) rest)
       else process_program_loop variables1 declarations statements rest)"

definition process_program :: "pnode \<Rightarrow> exn + (string set \<times> string list \<times> string list)" where
  "process_program n =
     (case n of
        P_PROGRAM ss \<Rightarrow> process_program_loop {} [] [] ss
      | P_OTHER t \<Rightarrow> if t = ''PROGRAM'' then Inl KeyError else Inr ({}, [], [])
      | _ \<Rightarrow> Inr ({}, [], []))"

definition cpp_program_text :: "string list \<Rightarrow> string list \<Rightarrow> string" where
  "cpp_program_text declarations statements =
     ''#include <iostream>'' @ [NL] @ ''#include <string>'' @ [NL] @ ''using namespace std;''
       @ [NL, NL] @ ''int main() {'' @ [NL] @ str_join [NL] declarations @ [NL]
       @ str_join [NL] statements @ [NL] @ ''    return 0;'' @ [NL] @ ''}''"

text \<open>\<open>PythonToCppConverter(ast).generate_code()\<close>.\<close>

definition py_generate_code :: "pnode \<Rightarrow> gres" where
  "py_generate_code ast =
     bindE (process_program ast) (\<lambda>(variables, declarations, statements).
     Inr (cpp_program_text declarations statements))"

text \<open>The node types that \<open>generate_expression\<close> has a rule for.\<close>

definition expression_handled_types :: "string list" where
  "expression_handled_types =
     [''STRING_LITERAL'', ''IDENTIFIER'', ''NUMBER'', ''BINARY_EXPRESSION'', ''FUNCTION_CALL'']"

section \<open>Properties of the tokenizers\<close>

lemma star_iter_ge:
  assumes "\<And>q e. e \<in> set (f q) \<Longrightarrow> q \<le> e"
  shows "e \<in> set (star_iter f n p) \<Longrightarrow> p \<le> e"
proof (induction n arbitrary: p e)
  case 0
  then show ?case by simp
next
  case (Suc n)
  then show ?case by (fastforce dest: assms)
qed

lemma rmatch_ge: "e \<in> set (rmatch r s p) \<Longrightarrow> p \<le> e"
proof (induction r arbitrary: p e)
  case (Seq a b)
  then show ?case by fastforce
next
  case (Star r)
  then show ?case using star_iter_ge [of "rmatch r s"] by auto
next
  case (Plus r)
  then show ?case using star_iter_ge [of "rmatch r s"] by fastforce
qed (auto split: if_splits)

lemma rmatch_progress: "nullfree r \<Longrightarrow> e \<in> set (rmatch r s p) \<Longrightarrow> p < e"
proof (induction r arbitrary: p e)
  case (Seq a b)
  from Seq.prems(2) obtain m where m: "m \<in> set (rmatch a s p)" "e \<in> set (rmatch b s m)"
    by auto
  from Seq.prems(1) have "nullfree a \<or> nullfree b" by simp
  then show ?case
  proof
    assume "nullfree a"
    with m Seq.IH(1) have "p < m" by blast
    moreover have "m \<le> e" using m(2) by (rule rmatch_ge)
    ultimately show ?thesis by simp
  next
    assume "nullfree b"
    with m Seq.IH(2) have "m < e" by blast
    moreover have "p \<le> m" using m(1) by (rule rmatch_ge)
    ultimately show ?thesis by simp
  qed
next
  case (Plus r)
  from Plus.prems(2) obtain m where m: "m \<in> set (rmatch r s p)"
    "e \<in> set (star_iter (rmatch r s) (length s - m) m)"
    by auto
  have "p < m" using Plus.IH Plus.prems(1) m(1) by simp
  moreover have "m \<le> e" using m(2) star_iter_ge [of "rmatch r s"] rmatch_ge by blast
  ultimately show ?case by simp
qed (auto split: if_splits)

lemma cpp_TOKEN_TYPES_nullfree: "(name, pat) \<in> set cpp_TOKEN_TYPES \<Longrightarrow> nullfree pat"
  by (auto simp: cpp_TOKEN_TYPES_def cpp_keyword_words_def)

lemma first_match_mem:
  "first_match tts s p = Some (name, e) \<Longrightarrow>
     \<exists>pat. (name, pat) \<in> set tts \<and> re_match pat s p = Some e"
  by (induction tts s p rule: first_match.induct) (auto split: option.splits)

lemma re_match_mem: "re_match r s p = Some e \<Longrightarrow> e \<in> set (rmatch r s p)"
  by (auto simp: re_match_def split: list.splits)

lemma cpp_first_match_progress:
  "first_match cpp_TOKEN_TYPES s p = Some (name, e) \<Longrightarrow> p < e"
  using first_match_mem re_match_mem cpp_TOKEN_TYPES_nullfree rmatch_progress by blast

text \<open>
  The C++-side tokenizer returns on every input: each pattern of its table consumes
  at least one character, so the offset grows until the text is used up or no
  pattern matches.
\<close>

lemma cpp_tokenize_loop_total: "\<exists>r. cpp_tokenize_loop s p toks = Some r"
proof (induction "length s - p" arbitrary: p toks rule: less_induct)
  case less
  show ?case
  proof (cases "p < length s")
    case False
    then show ?thesis by (subst cpp_tokenize_loop.simps) simp
  next
    case True
    show ?thesis
    proof (cases "first_match cpp_TOKEN_TYPES s p")
      case None
      with True show ?thesis by (subst cpp_tokenize_loop.simps) simp
    next
      case (Some ne)
      obtain name e where ne: "ne = (name, e)" by (cases ne)
      with Some have "p < e" using cpp_first_match_progress by blast
      with True have "length s - e < length s - p" by simp
      from less [OF this] Some ne True show ?thesis
        by (subst cpp_tokenize_loop.simps) simp
    qed
  qed
qed

lemma cpp_tokenize_total: "\<exists>r. cpp_tokenize contents = Some r"
  unfolding cpp_tokenize_def by (rule cpp_tokenize_loop_total)

lemma cpp_tokenize_loop_failure:
  "p < length s \<Longrightarrow> first_match cpp_TOKEN_TYPES s p = None \<Longrightarrow>
     cpp_tokenize_loop s p toks = Some (Inl (LexFailure p))"
  by (subst cpp_tokenize_loop.simps) simp

text \<open>
  On the Python side the last alternative of \<open>BITWISE_OPERATOR\<close> is the anchor \<open>^\<close>:
  at offset 0 it matches the empty string whenever no earlier pattern matches.
\<close>

lemma py_first_match_bang: "first_match py_TOKEN_TYPES ''!'' 0 = Some (T_BITWISE_OPERATOR, 0)"
  by code_simp

lemma py_tokenize_loop_bang:
  assumes "py_tokenize_loop s p t = Some r"
  shows "\<not> (s = ''!'' \<and> p = 0)"
proof (rule py_tokenize_loop.raw_induct
    [where P = "\<lambda>s p t r. \<not> (s = ''!'' \<and> p = 0)", OF _ assms], goal_cases)
  case (1 f s p t r)
  show ?case
  proof
    assume sp: "s = ''!'' \<and> p = 0"
    with 1(2) py_first_match_bang have "\<exists>t'. f ''!'' 0 t' = Some r"
      by (auto split: if_splits)
    with 1(1) show False by blast
  qed
qed

text \<open>
  C4, at the input \<open>!\<close>: \<open>PythonLexer.tokenize\<close> neither returns a token list nor
  raises the lex failure for offset 0. The empty match leaves the offset at 0, and
  the loop appends an empty \<open>BITWISE_OPERATOR\<close> token for ever.
\<close>

theorem PythonLexer_tokenize_bang_diverges: "py_tokenize ''!'' = None"
  using py_tokenize_loop_bang [of "''!''" 0 "[]"]
  by (cases "py_tokenize ''!''") (auto simp: py_tokenize_def)

section \<open>The C++-side parser: compound assignment\<close>

text \<open>
  C3, at the input \<open>x %= 2;\<close>: the C++-side tokenizer has no \<open>%=\<close> in its
  \<open>COMPOUND_ASSIGNMENT\<close> pattern, so the text gives the two tokens \<open>%\<close> and \<open>=\<close> and
  \<open>parse_assignment\<close> raises its \<open>SyntaxError\<close>, while \<open>x = x % 2;\<close> parses to the
  assignment of a binary expression. For the operators \<open>+\<close>, \<open>-\<close>, \<open>*\<close> and \<open>/\<close>
  the two spellings parse to the same tree.
\<close>

theorem modulo_compound_assignment_rejected:
  "cpp_parse ''x %= 2;'' = Some (Inl SyntaxError)
   \<and> cpp_parse ''x = x % 2;''
       = Some (Inr (PROGRAM [ASSIGNMENT ''x''
                      (BINARY_EXPRESSION ''%'' (IDENTIFIER ''x'') (NUMBER ''2''))]))
   \<and> cpp_parse ''x += 2;'' = cpp_parse ''x = x + 2;''
   \<and> cpp_parse ''x -= 2;'' = cpp_parse ''x = x - 2;''
   \<and> cpp_parse ''x *= 2;'' = cpp_parse ''x = x * 2;''
   \<and> cpp_parse ''x /= 2;'' = cpp_parse ''x = x / 2;''"
  by code_simp

section \<open>The C++-side analyzer: scopes and undeclared names\<close>

lemma lookup_in_None:
  "lookup_in scopes v = None \<longleftrightarrow> (\<forall>scope \<in> set scopes. scope v = None)"
  by (induction scopes) (auto split: option.splits)

lemma lookup_variable_None:
  "lookup_variable st v = None \<longleftrightarrow> (\<forall>scope \<in> set st. scope v = None)"
  by (simp add: lookup_variable_def lookup_in_None)


text \<open>
  \<open>declare_variable\<close> by itself: a name of the current scope is a redeclaration error
  and the scopes stay as they are; a name of an outer scope only is a shadowing
  warning; a name bound nowhere is entered into the current scope without a
  diagnostic.
\<close>

lemma declare_variable_current:
  "st \<noteq> [] \<Longrightarrow> (last st) v \<noteq> None \<Longrightarrow>
     declare_variable st v t errors False
       = Inr (st, errors @ [''Error: Variable '' @ quoted v @ '' already declared in this scope.''])"
  by (simp add: declare_variable_def)

lemma declare_variable_outer:
  "st \<noteq> [] \<Longrightarrow> (last st) v = None \<Longrightarrow> lookup_variable st v \<noteq> None \<Longrightarrow>
     declare_variable st v t errors False
       = Inr (st, errors @ [''Warning: Variable '' @ quoted v
                             @ '' shadows a declaration in an outer scope.''])"
  by (simp add: declare_variable_def)

lemma declare_variable_fresh:
  "st \<noteq> [] \<Longrightarrow> lookup_variable st v = None \<Longrightarrow>
     declare_variable st v t errors False = Inr (butlast st @ [(last st)(v \<mapsto> t)], errors)"
  by (simp add: declare_variable_def lookup_variable_None)

text \<open>
  The handler of a declaration statement looks the name up in every scope first, so
  a declared name of an outer scope never reaches \<open>declare_variable\<close>.
\<close>

lemma analyze_variable_declaration_bound:
  "truthy (lookup_variable st v) \<Longrightarrow>
     analyze_variable_declaration st t v None errors
       = Inr (st, errors @ [''Error: Variable '' @ quoted v @ '' already declared.''])"
  by (simp add: analyze_variable_declaration_def)

text \<open>
  C5, at the input \<open>int x = 1; { int x = 2; }\<close>: the inner declaration, whose name is
  bound in the outer frame only, is reported as an error; \<open>declare_variable\<close> on
  the same two frames gives the shadowing warning the claim describes.
\<close>

theorem shadowing_declaration_is_error:
  "map_option (\<lambda>a. bindE a analyze) (cpp_parse ''int x = 1; { int x = 2; }'')
     = Some (Inr [''Error: Variable '' @ quoted ''x'' @ '' already declared.''])
   \<and> bindE (declare_variable [[''x'' \<mapsto> VarType ''int''], Map.empty] ''x'' (VarType ''int'')
              [] False)
        (\<lambda>(st, errors). Inr errors)
     = Inr [''Warning: Variable '' @ quoted ''x'' @ '' shadows a declaration in an outer scope.'']"
  by code_simp





section \<open>The C++-to-Python generator\<close>






text \<open>
  C2, at the input \<open>for (int i = 10; i > 0; i--)\<close>: the rule for the operator \<open>>\<close>
  swaps start and bound, so the generated loop is \<open>range(0, 10, -1)\<close>, which is
  empty, while the source loop runs through 10, 9, ..., 1.
\<close>

theorem descending_loop_range_empty:
  "cpp_to_python ''int x = 0; for (int i = 10; i > 0; i--) x = x + i;''
     = Some (Inr (''x = 0'' @ [NL] @ ''for i in range(0, 10, -1):'' @ [NL] @ ''    x += i''))
   \<and> py_range 0 10 (- 1) = Inr []
   \<and> cpp_for_values (\<lambda>i. 0 < i) (- 1) 10 [] = Some [10, 9, 8, 7, 6, 5, 4, 3, 2, 1]"
  by code_simp

text \<open>
  C9: the pipeline turns \<open>int x = 5;\<close> into exactly \<open>x = 5\<close>, and no declaration is
  generated with its type: a declaration with an initializer becomes
  \<open>name = initializer\<close>, one without becomes the empty text, and the loop generated
  from a declaration in a \<open>for\<close> header does not depend on the declared type.
\<close>

theorem declaration_type_erased:
  "cpp_to_python ''int x = 5;'' = Some (Inr ''x = 5'')
   \<and> generate_node C (VARIABLE_DECLARATION t v (Some e)) statements position
       = bindE (generate_node C e None 0) (\<lambda>i. Inr (v @ '' = '' @ i))
   \<and> generate_node C (VARIABLE_DECLARATION t v None) statements position = Inr []
   \<and> generate_node C (FOR_LOOP (VARIABLE_DECLARATION t v i) c inc b) statements position
       = generate_node C (FOR_LOOP (VARIABLE_DECLARATION t' v i) c inc b) statements position"
proof -
  have "cpp_to_python ''int x = 5;'' = Some (Inr ''x = 5'')" by code_simp
  moreover have
    "generate_node C (FOR_LOOP (VARIABLE_DECLARATION t v i) c inc b) statements position
       = generate_node C (FOR_LOOP (VARIABLE_DECLARATION t' v i) c inc b) statements position"
    by (cases i) (simp_all add: for_range_def for_start_def for_loop_text_def)
  ultimately show ?thesis by simp
qed

section \<open>The Python-to-C++ generator\<close>

lemma bindE_Inr: "bindE m f = Inr y \<Longrightarrow> \<exists>x. m = Inr x \<and> f x = Inr y"
  by (cases m) auto






text \<open>
  \<open>process_nodes\<close> goes through a statement list from left to right: its result list
  has one text for each statement, at the position of the statement.
\<close>

lemma process_nodes_length:
  "process_nodes V ss = Inr (results, V1) \<Longrightarrow> length results = length ss"
proof (induction ss arbitrary: V results)
  case Nil
  then show ?case by simp
next
  case (Cons s ss)
  then show ?case by (auto dest!: bindE_Inr)
qed

lemma process_nodes_nth:
  "process_nodes V ss = Inr (results, V1) \<Longrightarrow> i < length ss \<Longrightarrow>
     \<exists>Va Vb. process_node Va (ss ! i) = Inr (results ! i, Vb)"
proof (induction ss arbitrary: V results i)
  case Nil
  then show ?case by simp
next
  case (Cons s ss)
  then show ?case by (cases i) (auto dest!: bindE_Inr, blast+)
qed


text \<open>
  C8, as amended: the first assignment \<open>x = input(p)\<close> to a variable becomes the
  declaration \<open>string x;\<close>, the printed prompt and the read \<open>cin >> x;\<close>; the first
  assignment \<open>x = int(input(p))\<close> becomes \<open>int x;\<close>, the printed prompt and the read
  into the integer variable. (A conversion \<open>int(x)\<close> in a later statement does not
  change the declaration of \<open>x\<close>: see the counterexample.)
\<close>

theorem input_prompt_expansion:
  assumes "x \<noteq> []" "x \<notin> V" "generate_expression p None False = Inr prompt"
  shows "process_node V (P_ASSIGNMENT x (P_FUNCTION_CALL ''input'' [p]))
           = Inr (''    string '' @ x @ '';'' @ [NL] @ ''    cout << '' @ prompt @ '';'' @ [NL]
                    @ ''    cin >> '' @ x @ '';'', insert x V)
       \<and> process_node V (P_ASSIGNMENT x (P_FUNCTION_CALL ''int'' [P_FUNCTION_CALL ''input'' [p]]))
           = Inr (''    int '' @ x @ '';'' @ [NL] @ ''    cout << '' @ prompt @ '';'' @ [NL]
                    @ ''    cin >> '' @ x @ '';'', insert x V)"
  using assms
  by (simp add: process_assignment_def is_compound_def process_regular_def has_target_def
      cout_cin_def typed_declaration_def startswith_def)

theorem input_prompt_expansion_witness:
  "process_node {} (P_ASSIGNMENT ''x''
       (P_FUNCTION_CALL ''input'' [P_STRING_LITERAL ([DQ] @ ''Enter: '' @ [DQ])]))
     = Inr (''    string x;'' @ [NL] @ ''    cout << '' @ [DQ] @ ''Enter: '' @ [DQ] @ '';'' @ [NL]
              @ ''    cin >> x;'', {''x''})
   \<and> process_node {} (P_ASSIGNMENT ''x''
       (P_FUNCTION_CALL ''int'' [P_FUNCTION_CALL ''input'' [P_STRING_LITERAL ([DQ] @ ''Enter: '' @ [DQ])]]))
     = Inr (''    int x;'' @ [NL] @ ''    cout << '' @ [DQ] @ ''Enter: '' @ [DQ] @ '';'' @ [NL]
              @ ''    cin >> x;'', {''x''})"
  using input_prompt_expansion
      [of "''x''" "{}" "P_STRING_LITERAL ([DQ] @ ''Enter: '' @ [DQ])" "[DQ] @ ''Enter: '' @ [DQ]"]
  by simp

text \<open>
  C8 as stated fails: for \<open>x = input("Enter: ")\<close> followed by \<open>y = int(x)\<close> the
  variable \<open>x\<close> is declared and read as a string, and the later conversion leaves an
  initializer without an expression; nowhere is \<open>x\<close> an integer.
\<close>

theorem later_int_conversion_ignored:
  "py_generate_code (P_PROGRAM [
     P_ASSIGNMENT ''x'' (P_FUNCTION_CALL ''input'' [P_STRING_LITERAL ([DQ] @ ''Enter: '' @ [DQ])]),
     P_ASSIGNMENT ''y'' (P_FUNCTION_CALL ''int'' [P_IDENTIFIER ''x''])])
   = Inr (cpp_program_text []
       [''    string x;'' @ [NL] @ ''    cout << '' @ [DQ] @ ''Enter: '' @ [DQ] @ '';'' @ [NL]
          @ ''    cin >> x;'',
        ''    int y = ;''])
   \<and> \<not> contains (cpp_program_text []
       [''    string x;'' @ [NL] @ ''    cout << '' @ [DQ] @ ''Enter: '' @ [DQ] @ '';'' @ [NL]
          @ ''    cin >> x;'',
        ''    int y = ;'']) ''int x''"
  by code_simp

section \<open>Nodes that no rule handles\<close>

text \<open>
  C10: a node whose type none of the rules of a generator names gets the empty
  text, without an exception and without a diagnostic: \<open>generate_node\<close> on the C++
  side, \<open>process_node\<close> (which also leaves \<open>self.variables\<close> alone) and
  \<open>generate_expression\<close> on the Python side.
\<close>

theorem unhandled_node_empty:
  "(node_type n \<notin> set handled_types \<longrightarrow> generate_node C n statements position = Inr [])
   \<and> (pnode_type m \<notin> set process_handled_types \<longrightarrow> process_node V m = Inr ([], V))
   \<and> (pnode_type e \<notin> set expression_handled_types
        \<longrightarrow> generate_expression e target_var wrap_binary = Inr [])"
proof (intro conjI impI)
  assume "node_type n \<notin> set handled_types"
  then show "generate_node C n statements position = Inr []"
    by (cases n) (simp_all add: handled_types_def fieldless_text_def)
next
  assume "pnode_type m \<notin> set process_handled_types"
  then show "process_node V m = Inr ([], V)"
    by (cases m) (simp_all add: process_handled_types_def)
next
  assume "pnode_type e \<notin> set expression_handled_types"
  then show "generate_expression e target_var wrap_binary = Inr []"
    by (cases e) (simp_all add: expression_handled_types_def)
qed

theorem unhandled_node_empty_witness:
  "generate_node \<lparr>conv_ast = PROGRAM [], use_main = False, analyzer_scopes = []\<rparr>
      (BLOCK [ASSIGNMENT ''x'' (NUMBER ''1'')]) None 0 = Inr []
   \<and> process_node {} (P_VARIABLE_DECLARATION ''int'' ''x'' (Some (P_NUMBER ''1''))) = Inr ([], {})
   \<and> generate_expression (P_OTHER ''LIST_LITERAL'') None False = Inr []"
  using unhandled_node_empty [of "BLOCK [ASSIGNMENT ''x'' (NUMBER ''1'')]"
      "\<lparr>conv_ast = PROGRAM [], use_main = False, analyzer_scopes = []\<rparr>" None 0
      "P_VARIABLE_DECLARATION ''int'' ''x'' (Some (P_NUMBER ''1''))" "{}"
      "P_OTHER ''LIST_LITERAL''" None False]
  by (simp add: handled_types_def process_handled_types_def expression_handled_types_def)

end
